theory Spec2Isabelle
  imports Complex_Main "HOL-Library.AList"
begin

section \<open>Numbers and the frame convention\<close>

text \<open>
  Python floats are idealised as exact reals throughout: the development is about the
  algebra of the importer, not about rounding of IEEE arithmetic.

  Python's \<^verbatim>\<open>int(x)\<close> on a float truncates toward zero: it is the floor of a
  non-negative number and minus the floor of the opposite of a negative one.
\<close>

definition py_int :: "real \<Rightarrow> int" where
  "py_int x = (if 0 \<le> x then \<lfloor>x\<rfloor> else - \<lfloor>- x\<rfloor>)"

text \<open>
  \<^verbatim>\<open>frame = 1 + int(key.time * fps + 0.5)  # time 0.0 is frame 1\<close>
  (animation_import.py, every key loop). The frame rate is a module attribute that the
  callers read; it is a parameter here.
\<close>

definition frame_of :: "real \<Rightarrow> real \<Rightarrow> int" where
  "frame_of fps time = 1 + py_int (time * fps + 0.5)"

section \<open>Frame rate estimation\<close>

text \<open>
  \<^verbatim>\<open>sum(abs(int(time * fps + 0.5) - (time * fps)) for time in key_times)\<close>
\<close>

definition fps_diff :: "int \<Rightarrow> real list \<Rightarrow> real" where
  "fps_diff fps key_times =
     sum_list (map (\<lambda>time. \<bar>of_int (py_int (time * of_int fps + 0.5)) - time * of_int fps\<bar>) key_times)"

text \<open>One pass of the loop \<^verbatim>\<open>for test_fps in [20, 25, 35]\<close>: the state is \<open>(fps, lowest_diff)\<close>.\<close>

definition fps_step :: "real list \<Rightarrow> int \<Rightarrow> int \<times> real \<Rightarrow> int \<times> real" where
  "fps_step key_times test_fps st =
     (let diff = fps_diff test_fps key_times
      in if diff < snd st then (test_fps, diff) else st)"

text \<open>
  \<open>get_frames_per_second\<close> from the point where \<open>key_times\<close> has been collected from
  the blocks of the file.
\<close>

definition get_frames_per_second :: "real list \<Rightarrow> int" where
  "get_frames_per_second key_times =
     (if key_times = [] then 30
      else fst (fold (fps_step key_times) [20, 25, 35] (30, fps_diff 30 key_times)))"

text \<open>The error sum of the specification, with mathematical rounding.\<close>

definition rounding_error :: "int \<Rightarrow> real list \<Rightarrow> real" where
  "rounding_error fps key_times =
     sum_list (map (\<lambda>time. \<bar>of_int (round (time * of_int fps)) - time * of_int fps\<bar>) key_times)"

section \<open>Vectors, matrices and errors\<close>

text \<open>
  Fixed-size vectors and matrices of \<^verbatim>\<open>mathutils\<close> are tuples; a matrix is the tuple of
  its rows, so \<^verbatim>\<open>m[i][j]\<close> is component \<open>j\<close> of row \<open>i\<close>. A quaternion is
  \<open>(w, x, y, z)\<close>.
\<close>

type_synonym vec3 = "real \<times> real \<times> real"
type_synonym vec4 = "real \<times> real \<times> real \<times> real"
type_synonym mat3 = "vec3 \<times> vec3 \<times> vec3"
type_synonym mat4 = "vec4 \<times> vec4 \<times> vec4 \<times> vec4"
type_synonym quat = "real \<times> real \<times> real \<times> real"

datatype error = AssertionError | AttributeError | KeyError | ZeroDivisionError | TypeError

definition IDENTITY33 :: mat3 where
  "IDENTITY33 = ((1, 0, 0), (0, 1, 0), (0, 0, 1))"

text \<open>\<^verbatim>\<open>(m[0][3], m[1][3], m[2][3])\<close>: the translation column of a 4x4 matrix.\<close>

definition translation_column :: "mat4 \<Rightarrow> vec3" where
  "translation_column m = (case m of ((_, _, _, a), (_, _, _, b), (_, _, _, c), _) \<Rightarrow> (a, b, c))"

text \<open>\<^verbatim>\<open>m[3]\<close>: the fourth row.\<close>

definition row3 :: "mat4 \<Rightarrow> vec4" where
  "row3 m = (case m of (_, _, _, r) \<Rightarrow> r)"

definition vec_add :: "vec3 \<Rightarrow> vec3 \<Rightarrow> vec3" where
  "vec_add u v = (case (u, v) of ((a, b, c), (d, e, f)) \<Rightarrow> (a + d, b + e, c + f))"

definition vec_sub :: "vec3 \<Rightarrow> vec3 \<Rightarrow> vec3" where
  "vec_sub u v = (case (u, v) of ((a, b, c), (d, e, f)) \<Rightarrow> (a - d, b - e, c - f))"

text \<open>Python's \<^verbatim>\<open>sum(m[i][3] for m in matrices)\<close>, for the three translation components at once.\<close>

definition sum_vec :: "vec3 list \<Rightarrow> vec3" where
  "sum_vec vs = fold (\<lambda>v acc. vec_add acc v) vs (0, 0, 0)"

section \<open>Armatures and bones\<close>

text \<open>
  \<^verbatim>\<open>armature.DICT_ARMATURES\<close> maps a skeleton root to the list of blocks marked as its
  bones. Blocks are identified by values of type \<open>'n\<close>; Python's \<^verbatim>\<open>None\<close> is \<open>None\<close>, and
  since \<open>complete_bone_tree\<close> appends a parent reference without testing it, the lists hold
  optional blocks.
\<close>

type_synonym 'n armatures = "('n \<times> 'n option list) list"

text \<open>\<open>Armature.is_bone\<close>: a block is a bone when some armature's list holds it.\<close>

definition is_bone :: "'n armatures \<Rightarrow> 'n option \<Rightarrow> bool" where
  "is_bone DICT_ARMATURES ni_block =
     (case ni_block of
        None \<Rightarrow> False
      | Some _ \<Rightarrow> list_ex (\<lambda>bones. ni_block \<in> set bones) (map snd DICT_ARMATURES))"

subsection \<open>Correction matrices\<close>

text \<open>The order is +X, +Y, +Z, -X, -Y, -Z.\<close>

definition BONE_CORRECTION_MATRICES :: "mat3 list" where
  "BONE_CORRECTION_MATRICES =
     [((0, -1, 0), (1, 0, 0), (0, 0, 1)),
      ((1, 0, 0), (0, 1, 0), (0, 0, 1)),
      ((1, 0, 0), (0, 0, 1), (0, -1, 0)),
      ((0, 1, 0), (-1, 0, 0), (0, 0, 1)),
      ((-1, 0, 0), (0, -1, 0), (0, 0, 1)),
      ((1, 0, 0), (0, 0, -1), (0, 1, 0))]"

text \<open>\<^verbatim>\<open>list_xyz = [int(c * 200) for c in (sum_x, sum_y, sum_z, - sum_x, -sum_y, -sum_z)]\<close>\<close>

definition list_xyz :: "vec3 \<Rightarrow> int list" where
  "list_xyz s =
     (case s of (sum_x, sum_y, sum_z) \<Rightarrow>
        map (\<lambda>c. py_int (c * 200)) [sum_x, sum_y, sum_z, - sum_x, - sum_y, - sum_z])"

text \<open>
  \<^verbatim>\<open>max(xs)\<close> and \<^verbatim>\<open>xs.index(v)\<close> (the first position of \<open>v\<close>). Both raise on a list
  without the value; \<open>find_correction_matrix\<close> applies them to a list of six entries and to
  its own maximum, so that case has no equation.
\<close>

fun max_list :: "int list \<Rightarrow> int" where
  "max_list (x # xs) = fold max xs x"

fun index_of :: "int list \<Rightarrow> int \<Rightarrow> nat" where
  "index_of (x # xs) v = (if x = v then 0 else Suc (index_of xs v))"

definition idx_correction :: "vec3 \<Rightarrow> nat" where
  "idx_correction s = index_of (list_xyz s) (max_list (list_xyz s))"

definition alignment_offset :: "vec3 \<Rightarrow> real" where
  "alignment_offset s =
     (case s of (sum_x, sum_y, sum_z) \<Rightarrow>
        let idx_correction = idx_correction s in
        if (idx_correction = 0 \<or> idx_correction = 3) \<and> \<bar>sum_x\<bar> > 0
          then (\<bar>sum_y\<bar> + \<bar>sum_z\<bar>) / \<bar>sum_x\<bar>
        else if (idx_correction = 1 \<or> idx_correction = 4) \<and> \<bar>sum_y\<bar> > 0
          then (\<bar>sum_z\<bar> + \<bar>sum_x\<bar>) / \<bar>sum_y\<bar>
        else if \<bar>sum_z\<bar> > 0
          then (\<bar>sum_x\<bar> + \<bar>sum_y\<bar>) / \<bar>sum_z\<bar>
        else 0)"

text \<open>
  Lines 262 to 274 of \<open>find_correction_matrix\<close>: from the accumulated offset to the
  matrix.
\<close>

definition select_correction :: "vec3 \<Rightarrow> mat3" where
  "select_correction s =
     (if alignment_offset s < 0.25 then BONE_CORRECTION_MATRICES ! idx_correction s
      else IDENTITY33)"

text \<open>
  \<open>Armature.find_correction_matrix\<close>. \<^verbatim>\<open>nif_utils.import_matrix\<close> is not part of the
  sources at hand and is a parameter, with its optional \<^verbatim>\<open>relative_to\<close> argument.
  \<^verbatim>\<open>n_block.children\<close> is the list of child blocks; an empty reference among them is
  dropped by \<open>is_bone\<close> in every use, so the list holds blocks only.
\<close>

definition find_correction_matrix ::
  "int \<Rightarrow> 'n armatures \<Rightarrow> ('n \<Rightarrow> 'n list) \<Rightarrow> ('n \<Rightarrow> 'n option \<Rightarrow> mat4) \<Rightarrow> 'n option \<Rightarrow> 'n \<Rightarrow> mat3" where
  "find_correction_matrix import_realign_bones DICT_ARMATURES children import_matrix n_block n_armature =
     (if import_realign_bones = 2 \<and> is_bone DICT_ARMATURES n_block then
        (case n_block of
           None \<Rightarrow> IDENTITY33
         | Some block \<Rightarrow>
             let armature_space_matrix = import_matrix block (Some n_armature);
                 (sum_x, sum_y, sum_z, dummy) = row3 armature_space_matrix;
                 n_child_bones = filter (\<lambda>child. is_bone DICT_ARMATURES (Some child)) (children block);
                 offset = (if length n_child_bones > 0
                         then sum_vec (map (\<lambda>child. translation_column (import_matrix child None)) n_child_bones)
                         else (sum_x, sum_y, sum_z))
             in select_correction offset)
      else IDENTITY33)"

text \<open>
  The selector in the words of the specification: the candidates are the components
  scaled by 200, the dominant component is the one at the first maximal index, and the
  alignment offset is the sum of the other two absolute components over the dominant one
  (no value when the dominant component is zero).
\<close>

definition axis_component :: "vec3 \<Rightarrow> nat \<Rightarrow> real" where
  "axis_component s i = (case s of (x, y, z) \<Rightarrow> if i mod 3 = 0 then x else if i mod 3 = 1 then y else z)"

definition dominant_abs :: "vec3 \<Rightarrow> nat \<Rightarrow> real" where
  "dominant_abs s i = \<bar>axis_component s i\<bar>"

definition non_dominant_abs_sum :: "vec3 \<Rightarrow> nat \<Rightarrow> real" where
  "non_dominant_abs_sum s i = \<bar>axis_component s (i + 1)\<bar> + \<bar>axis_component s (i + 2)\<bar>"

fun first_argmax :: "real list \<Rightarrow> nat" where
  "first_argmax [] = 0"
| "first_argmax (x # xs) = (if list_all (\<lambda>y. y \<le> x) xs then 0 else Suc (first_argmax xs))"

definition spec_argmax :: "vec3 \<Rightarrow> nat" where
  "spec_argmax s = (case s of (x, y, z) \<Rightarrow>
     first_argmax (map (\<lambda>c. c * 200) [x, y, z, - x, - y, - z]))"

definition spec_select_correction :: "vec3 \<Rightarrow> mat3 option" where
  "spec_select_correction s =
     (let i = spec_argmax s in
      if dominant_abs s i = 0 then None
      else if non_dominant_abs_sum s i / dominant_abs s i < 0.25
        then Some (BONE_CORRECTION_MATRICES ! i)
      else Some IDENTITY33)"

subsection \<open>Completing the bone tree\<close>

text \<open>
  \<open>Armature.complete_bone_tree\<close>. The recursion follows \<^verbatim>\<open>bone._parent\<close>, which the
  model reads from \<open>parent\<close>; on a parent chain that never meets \<open>skelroot\<close> and never
  ends the Python recursion does not return, and the model's value is \<open>None\<close>. A chain
  that ends without meeting \<open>skelroot\<close> appends the empty reference and fails on its
  \<^verbatim>\<open>_parent\<close> in the next call. The two \<^verbatim>\<open>assert\<close> statements are the first two tests.
  The result is the updated \<^verbatim>\<open>DICT_ARMATURES\<close>.
\<close>

partial_function (option) complete_bone_tree ::
  "('n \<Rightarrow> 'n option) \<Rightarrow> 'n armatures \<Rightarrow> 'n option \<Rightarrow> 'n \<Rightarrow> (error + 'n armatures) option" where
  "complete_bone_tree parent DICT_ARMATURES bone skelroot =
     (case map_of DICT_ARMATURES skelroot of
        None \<Rightarrow> Some (Inl AssertionError)
      | Some bones \<Rightarrow>
          if bone \<notin> set bones then Some (Inl AssertionError)
          else
            (case bone of
               None \<Rightarrow> Some (Inl AttributeError)
             | Some b \<Rightarrow>
                 let boneparent = parent b in
                 if boneparent \<noteq> Some skelroot then
                   complete_bone_tree parent
                     (if boneparent \<notin> set bones
                      then AList.update skelroot (bones @ [boneparent]) DICT_ARMATURES
                      else DICT_ARMATURES)
                     boneparent skelroot
                 else Some (Inr DICT_ARMATURES)))"

text \<open>
  The armature root is an ancestor of the bone: \<open>ns\<close> lists, from the bone's parent
  upward, the blocks strictly between the bone and \<open>skelroot\<close>.
\<close>

fun parent_chain :: "('n \<Rightarrow> 'n option) \<Rightarrow> 'n \<Rightarrow> 'n \<Rightarrow> 'n list \<Rightarrow> bool" where
  "parent_chain parent bone skelroot [] = (parent bone = Some skelroot)"
| "parent_chain parent bone skelroot (n # ns) =
     (parent bone = Some n \<and> n \<noteq> skelroot \<and> parent_chain parent n skelroot ns)"

subsection \<open>Head and tail of a bone\<close>

text \<open>
  \<^verbatim>\<open>Vector.normalize()\<close> of \<^verbatim>\<open>mathutils\<close>: the vector divided by its length; the zero
  vector stays the zero vector.
\<close>

definition normalize :: "vec3 \<Rightarrow> vec3" where
  "normalize v =
     (case v of (x, y, z) \<Rightarrow>
        let n = sqrt (x * x + y * y + z * z)
        in if n = 0 then (0, 0, 0) else (x / n, y / n, z / n))"

text \<open>The Euclidean length of a vector.\<close>

definition vec_length :: "vec3 \<Rightarrow> real" where
  "vec_length v = (case v of (x, y, z) \<Rightarrow> sqrt (x * x + y * y + z * z))"

text \<open>\<^verbatim>\<open>sum(m[i][3] for m in child_matrices) / len(child_matrices)\<close>, for the three components.\<close>

definition average_position :: "vec3 list \<Rightarrow> vec3" where
  "average_position vs =
     (case sum_vec vs of (x, y, z) \<Rightarrow>
        (x / real (length vs), y / real (length vs), z / real (length vs)))"

record bone_placement =
  head :: vec3
  tail :: vec3
  is_zero_length :: bool

text \<open>
  The part of \<open>Armature.import_bone\<close> that places the bone: from the test that the block is
  a bone (\<^verbatim>\<open>return None\<close> otherwise) to the assignment of \<^verbatim>\<open>b_bone.head\<close> and
  \<^verbatim>\<open>b_bone.tail\<close>. The result also carries the final value of the local
  \<^verbatim>\<open>is_zero_length\<close>. \<open>edit_bones\<close> gives the head and tail of the edit bone already
  created for a block (\<^verbatim>\<open>b_armature_data.edit_bones[obj.DICT_NAMES[block]]\<close>); a missing
  entry is a \<^verbatim>\<open>KeyError\<close>. \<open>epsilon\<close>, \<open>scale\<close> and \<open>import_realign_bones\<close> are the
  import options \<^verbatim>\<open>NifOp.props.epsilon\<close>, \<^verbatim>\<open>scale_correction_import\<close> and
  \<^verbatim>\<open>import_realign_bones\<close>. The calls of \<open>find_correction_matrix\<close> raise nothing and do
  not touch head or tail. What follows line 208 (the bone matrix, the extra matrix and
  the recursion into the children) works on the host's bone and is not part of the
  definition.
\<close>

definition import_bone ::
  "int \<Rightarrow> real \<Rightarrow> real \<Rightarrow> 'n armatures \<Rightarrow> ('n \<Rightarrow> 'n list) \<Rightarrow> ('n \<Rightarrow> 'n option) \<Rightarrow>
   ('n \<Rightarrow> 'n option \<Rightarrow> mat4) \<Rightarrow> ('n \<Rightarrow> (vec3 \<times> vec3) option) \<Rightarrow> 'n \<Rightarrow> 'n \<Rightarrow>
   error + bone_placement option" where
  "import_bone import_realign_bones epsilon scale DICT_ARMATURES children parent import_matrix
      edit_bones n_block n_armature =
     (if \<not> is_bone DICT_ARMATURES (Some n_block) then Inr None
      else
        let nub_length = 5;
            n_child_bones = filter (\<lambda>child. is_bone DICT_ARMATURES (Some child)) (children n_block);
            armature_space_matrix = import_matrix n_block (Some n_armature);
            (b_bone_head_x, b_bone_head_y, b_bone_head_z) = translation_column armature_space_matrix;
            ((b_bone_tail_x, b_bone_tail_y, b_bone_tail_z), is_zero_length) =
              (if length n_child_bones > 0 then
                 let child_matrices = map (\<lambda>child. import_matrix child (Some n_armature)) n_child_bones;
                     (tail_x, tail_y, tail_z) = average_position (map translation_column child_matrices);
                     dx = b_bone_head_x - tail_x;
                     dy = b_bone_head_y - tail_y;
                     dz = b_bone_head_z - tail_z
                 in ((tail_x, tail_y, tail_z), \<bar>dx + dy + dz\<bar> * 200 < epsilon)
               else ((b_bone_head_x, b_bone_head_y, b_bone_head_z), True))
        in
          if is_zero_length then
            if import_realign_bones = 2 \<or> \<not> is_bone DICT_ARMATURES (parent n_block) then
              Inr (Some \<lparr>head = (b_bone_head_x, b_bone_head_y, b_bone_head_z),
                         tail = (b_bone_head_x + nub_length * scale, b_bone_tail_y, b_bone_tail_z),
                         is_zero_length = is_zero_length\<rparr>)
            else
              (case parent n_block of
                 None \<Rightarrow> Inl AttributeError
               | Some p \<Rightarrow>
                   (case edit_bones p of
                      None \<Rightarrow> Inl KeyError
                    | Some (parent_head, parent_tail) \<Rightarrow>
                        let (ptx, pty, ptz) = parent_tail;
                            dx = b_bone_head_x - ptx;
                            dy = b_bone_head_y - pty;
                            dz = b_bone_head_z - ptz;
                            (dx, dy, dz) =
                              (if \<bar>dx + dy + dz\<bar> * 200 < epsilon
                               then vec_sub parent_tail parent_head
                               else (dx, dy, dz));
                            (dir_x, dir_y, dir_z) = normalize (dx, dy, dz)
                        in Inr (Some \<lparr>head = (b_bone_head_x, b_bone_head_y, b_bone_head_z),
                                      tail = (b_bone_head_x + dir_x * nub_length * scale,
                                              b_bone_head_y + dir_y * nub_length * scale,
                                              b_bone_head_z + dir_z * nub_length * scale),
                                      is_zero_length = is_zero_length\<rparr>)))
          else
            Inr (Some \<lparr>head = (b_bone_head_x, b_bone_head_y, b_bone_head_z),
                       tail = (b_bone_tail_x, b_bone_tail_y, b_bone_tail_z),
                       is_zero_length = is_zero_length\<rparr>))"

text \<open>
  The quantities the statements about \<open>import_bone\<close> speak of: the bone's own position in
  armature space, the positions of its immediate children that are bones, and the signed
  sum of the components of a vector, which the code compares with the threshold.
\<close>

definition bone_position :: "('n \<Rightarrow> 'n option \<Rightarrow> mat4) \<Rightarrow> 'n \<Rightarrow> 'n \<Rightarrow> vec3" where
  "bone_position import_matrix n_armature block =
     translation_column (import_matrix block (Some n_armature))"

definition child_bone_positions ::
  "'n armatures \<Rightarrow> ('n \<Rightarrow> 'n list) \<Rightarrow> ('n \<Rightarrow> 'n option \<Rightarrow> mat4) \<Rightarrow> 'n \<Rightarrow> 'n \<Rightarrow> vec3 list" where
  "child_bone_positions DICT_ARMATURES children import_matrix n_armature block =
     map (bone_position import_matrix n_armature)
       (filter (\<lambda>child. is_bone DICT_ARMATURES (Some child)) (children block))"

definition component_sum :: "vec3 \<Rightarrow> real" where
  "component_sum v = (case v of (x, y, z) \<Rightarrow> x + y + z)"

text \<open>The sum of the absolute components of a vector.\<close>

definition abs_component_sum :: "vec3 \<Rightarrow> real" where
  "abs_component_sum v = (case v of (x, y, z) \<Rightarrow> \<bar>x\<bar> + \<bar>y\<bar> + \<bar>z\<bar>)"

definition scale_vec :: "real \<Rightarrow> vec3 \<Rightarrow> vec3" where
  "scale_vec k v = (case v of (x, y, z) \<Rightarrow> (x * k, y * k, z * k))"

subsection \<open>Scale, rotation and translation of a matrix\<close>

definition determinant :: "mat3 \<Rightarrow> real" where
  "determinant m =
     (case m of ((a, b, c), (d, e, f), (g, h, i)) \<Rightarrow>
        a * (e * i - f * h) - b * (d * i - f * g) + c * (d * h - e * g))"

text \<open>\<^verbatim>\<open>Matrix * float\<close>.\<close>

definition mat_scale :: "mat3 \<Rightarrow> real \<Rightarrow> mat3" where
  "mat_scale m k =
     (case m of ((a, b, c), (d, e, f), (g, h, i)) \<Rightarrow>
        ((a * k, b * k, c * k), (d * k, e * k, f * k), (g * k, h * k, i * k)))"

text \<open>
  \<^verbatim>\<open>x ** 0.5\<close> on a float: the square root of a non-negative number. For a negative
  number Python 3 yields a complex number, which \<^verbatim>\<open>mathutils.Vector\<close> rejects with a
  \<^verbatim>\<open>TypeError\<close> when \<open>decompose_srt\<close> builds \<^verbatim>\<open>b_scale\<close>.
\<close>

definition py_pow_half :: "real \<Rightarrow> error + real" where
  "py_pow_half x = (if x < 0 then Inl TypeError else Inr (sqrt x))"

text \<open>
  \<open>Armature.decompose_srt\<close>. \<^verbatim>\<open>Matrix.decompose\<close> and \<^verbatim>\<open>Quaternion.to_matrix\<close> belong to
  \<^verbatim>\<open>mathutils\<close> and are parameters. The result carries the warnings logged on the way.
\<close>

definition decompose_srt ::
  "(mat4 \<Rightarrow> vec3 \<times> quat \<times> vec3) \<Rightarrow> (quat \<Rightarrow> mat3) \<Rightarrow> real \<Rightarrow> mat4 \<Rightarrow>
   error + (string list \<times> (real \<times> mat3 \<times> vec3))" where
  "decompose_srt decompose to_matrix epsilon matrix =
     (let (trans_vec, rot_quat, scale_vec) = decompose matrix;
          scale_rot = to_matrix rot_quat;
          (s0, s1, s2) = scale_vec
      in case (py_pow_half s0, py_pow_half s1, py_pow_half s2) of
           (Inr r0, Inr r1, Inr r2) \<Rightarrow>
             let b_scale = (if determinant scale_rot < 0 then (- r0, - r1, - r2) else (r0, r1, r2));
                 log = (if \<bar>s0 - s1\<bar> \<ge> epsilon \<or> \<bar>s1 - s2\<bar> \<ge> epsilon
                        then [''Corrupt rotation matrix in nif: geometry errors may result.'']
                        else []);
                 b_scale = fst b_scale;
                 b_rot = mat_scale scale_rot b_scale;
                 b_trans = trans_vec
             in Inr (log, (b_scale, b_rot, b_trans))
         | _ \<Rightarrow> Inl TypeError)"

section \<open>Armature animation\<close>

subsection \<open>Quaternions and matrices\<close>

text \<open>
  \<^verbatim>\<open>p.cross(q)\<close> of \<^verbatim>\<open>mathutils\<close> is the quaternion product \<open>p * q\<close>, in this
  order.
\<close>

definition cross :: "quat \<Rightarrow> quat \<Rightarrow> quat" where
  "cross p q =
     (case (p, q) of ((a, b, c, d), (e, f, g, h)) \<Rightarrow>
        (a * e - b * f - c * g - d * h,
         a * f + b * e + c * h - d * g,
         a * g - b * h + c * e + d * f,
         a * h + b * g - c * f + d * e))"

text \<open>\<^verbatim>\<open>Matrix * Vector\<close> and \<^verbatim>\<open>Matrix * Matrix\<close>.\<close>

definition dot :: "vec3 \<Rightarrow> vec3 \<Rightarrow> real" where
  "dot u v = (case (u, v) of ((a, b, c), (d, e, f)) \<Rightarrow> a * d + b * e + c * f)"

definition mat_vec :: "mat3 \<Rightarrow> vec3 \<Rightarrow> vec3" where
  "mat_vec m v = (case m of (r0, r1, r2) \<Rightarrow> (dot r0 v, dot r1 v, dot r2 v))"

definition mat_mul :: "mat3 \<Rightarrow> mat3 \<Rightarrow> mat3" where
  "mat_mul m n =
     (case n of ((a, b, c), (d, e, f), (g, h, i)) \<Rightarrow>
        (case m of (r0, r1, r2) \<Rightarrow>
           ((dot r0 (a, d, g), dot r0 (b, e, h), dot r0 (c, f, i)),
            (dot r1 (a, d, g), dot r1 (b, e, h), dot r1 (c, f, i)),
            (dot r2 (a, d, g), dot r2 (b, e, h), dot r2 (c, f, i)))))"

subsection \<open>The data of one bone\<close>

text \<open>
  The locals that \<open>import_armature_animation\<close> computes for a bone before it reads the
  keys: the decomposition of the bind matrix and of the extra matrix, with the inverses
  and quaternions that \<^verbatim>\<open>mathutils\<close> derives from them (\<^verbatim>\<open>nif_utils.decompose_srt\<close>,
  \<^verbatim>\<open>Matrix.invert\<close> and \<^verbatim>\<open>Matrix.to_quaternion\<close> are not part of the sources at hand).
\<close>

record bone_bind =
  niBone_bind_scale :: real
  niBone_bind_rot_inv :: mat3
  niBone_bind_quat_inv :: quat
  niBone_bind_trans :: vec3
  extra_matrix_scale :: real
  extra_matrix_rot_inv :: mat3
  extra_matrix_quat :: quat
  extra_matrix_quat_inv :: quat
  extra_matrix_trans :: vec3

text \<open>
  An F-curve of the host: its data path, its array index and its evaluation at a frame.
\<close>

record fcurve =
  data_path :: string
  array_index :: nat
  evaluate :: "int \<Rightarrow> real"

text \<open>
  What the importer reads from outside: the frame rates (the module attributes
  \<^verbatim>\<open>animation.fps\<close>, \<^verbatim>\<open>armature.fps\<close>), the attribute \<^verbatim>\<open>self.properties.epsilon\<close> (\<open>None\<close>
  when the object has no attribute \<^verbatim>\<open>properties\<close>: the class \<open>ArmatureAnimation\<close> defines
  none, and \<open>import_armature\<close> calls the method on a fresh object), the conversions of
  \<^verbatim>\<open>mathutils\<close>, and the channels of the bone's group in the action
  (\<^verbatim>\<open>b_armature_action.groups[bone_name].channels\<close> and the same through
  \<^verbatim>\<open>bpy.data.actions[name]\<close>) at the time the translation keys are read.
\<close>

record anim_env =
  animation_fps :: real
  armature_fps :: real
  properties_epsilon :: "real option"
  quaternion_to_matrix :: "quat \<Rightarrow> mat3"
  euler_to_quaternion :: "vec3 \<Rightarrow> quat"
  action_channels :: "fcurve list"
  named_action_channels :: "fcurve list"

text \<open>
  A keyframe insertion: the data path given to \<^verbatim>\<open>keyframe_insert\<close>, the frame, and the
  value that the loop assigned to the pose bone just before.
\<close>

datatype kvalue = ScaleValue real | RotationValue quat | LocationValue vec3

datatype keyframe = Keyframe string int kvalue

text \<open>
  The state of the import of one bone: the insertions so far, in order, and the two
  dictionaries \<^verbatim>\<open>scale_keys_dict\<close> and \<^verbatim>\<open>rot_keys_dict\<close>.
\<close>

record anim_state =
  keyframes :: "keyframe list"
  scale_keys_dict :: "int \<rightharpoonup> real"
  rot_keys_dict :: "int \<rightharpoonup> quat"

definition initial_state :: anim_state where
  "initial_state = \<lparr>keyframes = [], scale_keys_dict = Map.empty, rot_keys_dict = Map.empty\<rparr>"

text \<open>
  The key arrays of a \<^verbatim>\<open>NiKeyframeData\<close> block: a key is a time with its value.
\<close>

record keyframe_data =
  scales_keys :: "(real \<times> real) list"
  rotation_type :: int
  xyz_rotations :: "(real \<times> real) list \<times> (real \<times> real) list \<times> (real \<times> real) list"
  quaternion_keys :: "(real \<times> quat) list"
  translations_keys :: "(real \<times> vec3) list"

subsection \<open>Scale keys\<close>

text \<open>
  The constructors of \<^verbatim>\<open>mathutils\<close> take one sequence of components:
  \<^verbatim>\<open>mathutils.Vector(size, size, size)\<close> (line 668) and
  \<^verbatim>\<open>mathutils.Euler(xkey.value, ykey.value, zkey.value)\<close> (line 693), called with three
  floats, raise \<^verbatim>\<open>TypeError\<close>.
\<close>

definition mathutils_Vector3 :: "real \<Rightarrow> real \<Rightarrow> real \<Rightarrow> error + vec3" where
  "mathutils_Vector3 x y z = Inl TypeError"

definition mathutils_Euler3 :: "real \<Rightarrow> real \<Rightarrow> real \<Rightarrow> error + vec3" where
  "mathutils_Euler3 x y z = Inl TypeError"

text \<open>
  Lines 663 to 672. \<^verbatim>\<open>kfd.translations\<close> is a key group object, true in
  \<^verbatim>\<open>if translations:\<close>, so the dictionaries exist. The scale is assigned to the pose
  bone as the vector that line 668 builds, before the insertion and the dictionary
  update.
\<close>

fun scale_keys_loop ::
  "anim_env \<Rightarrow> bone_bind \<Rightarrow> (real \<times> real) list \<Rightarrow> anim_state \<Rightarrow> error + anim_state" where
  "scale_keys_loop env b [] st = Inr st"
| "scale_keys_loop env b ((time, sizeVal) # keys) st =
     (let frame = frame_of (animation_fps env) time in
      if niBone_bind_scale b = 0 then Inl ZeroDivisionError
      else
        let size = sizeVal / niBone_bind_scale b in
        case mathutils_Vector3 size size size of
          Inl e \<Rightarrow> Inl e
        | Inr scale_vector \<Rightarrow>
            scale_keys_loop env b keys
              (st\<lparr>keyframes := keyframes st @ [Keyframe ''scale'' frame (ScaleValue size)],
                  scale_keys_dict := (scale_keys_dict st)(frame \<mapsto> size)\<rparr>))"

subsection \<open>Rotation keys\<close>

text \<open>Lines 717 to 719 (quaternion keys) and 579 to 581 (B-spline samples).\<close>

definition quaternion_rotation :: "bone_bind \<Rightarrow> quat \<Rightarrow> quat" where
  "quaternion_rotation b quat =
     (let quatVal = cross (niBone_bind_quat_inv b) quat;
          rot = cross (extra_matrix_quat_inv b) quatVal
      in cross rot (extra_matrix_quat b))"

definition bspline_rotation :: "bone_bind \<Rightarrow> quat \<Rightarrow> quat" where
  "bspline_rotation b quat =
     (let quatVal = cross (niBone_bind_quat_inv b) quat;
          rot = cross (extra_matrix_quat_inv b) quatVal
      in cross rot (extra_matrix_quat b))"

text \<open>Lines 696 to 698 (Euler keys, after the conversion of the angles to a quaternion).\<close>

definition euler_rotation :: "bone_bind \<Rightarrow> quat \<Rightarrow> quat" where
  "euler_rotation b quat =
     (let quatVal = cross quat (niBone_bind_quat_inv b);
          rot = cross (extra_matrix_quat_inv b) quatVal
      in cross rot (extra_matrix_quat b))"

text \<open>Lines 712 to 725.\<close>

fun quaternion_keys_loop ::
  "anim_env \<Rightarrow> bone_bind \<Rightarrow> (real \<times> quat) list \<Rightarrow> anim_state \<Rightarrow> error + anim_state" where
  "quaternion_keys_loop env b [] st = Inr st"
| "quaternion_keys_loop env b ((time, keyVal) # keys) st =
     (let frame = frame_of (armature_fps env) time;
          rot = quaternion_rotation b keyVal
      in quaternion_keys_loop env b keys
           (st\<lparr>keyframes := keyframes st @ [Keyframe ''rotation_quaternion'' frame (RotationValue rot)],
               rot_keys_dict := (rot_keys_dict st)(frame \<mapsto> rot)\<rparr>))"

text \<open>
  Lines 682 to 704, over the zipped keys of the three axes. The comparison of the key
  times reads \<^verbatim>\<open>self.properties.epsilon\<close> first; its only other effect is a warning.
  The angles then go through the constructor of line 693 before the conversion to a
  quaternion.
\<close>

fun euler_keys_loop ::
  "anim_env \<Rightarrow> bone_bind \<Rightarrow> ((real \<times> real) \<times> (real \<times> real) \<times> (real \<times> real)) list \<Rightarrow>
   anim_state \<Rightarrow> error + anim_state" where
  "euler_keys_loop env b [] st = Inr st"
| "euler_keys_loop env b (((xtime, xvalue), (ytime, yvalue), (ztime, zvalue)) # keys) st =
     (case properties_epsilon env of
        None \<Rightarrow> Inl AttributeError
      | Some epsilon \<Rightarrow>
          let frame = frame_of (animation_fps env) xtime in
          case mathutils_Euler3 xvalue yvalue zvalue of
            Inl e \<Rightarrow> Inl e
          | Inr euler \<Rightarrow>
              let quat = euler_to_quaternion env euler;
                  rot = euler_rotation b quat
              in euler_keys_loop env b keys
                   (st\<lparr>keyframes := keyframes st @ [Keyframe ''rotation_euler'' frame (RotationValue rot)],
                       rot_keys_dict := (rot_keys_dict st)(frame \<mapsto> rot)\<rparr>))"

text \<open>
  Lines 574 to 587, over the zipped times and rotations of a B-spline interpolator;
  \<open>translations\<close> tells whether the interpolator has translations, in which case the
  dictionary exists and is filled.
\<close>

fun bspline_rotations_loop ::
  "anim_env \<Rightarrow> bone_bind \<Rightarrow> bool \<Rightarrow> (real \<times> quat) list \<Rightarrow> anim_state \<Rightarrow> anim_state" where
  "bspline_rotations_loop env b translations [] st = st"
| "bspline_rotations_loop env b translations ((time, quat) # samples) st =
     (let frame = frame_of (animation_fps env) time;
          rot = bspline_rotation b quat
      in bspline_rotations_loop env b translations samples
           (st\<lparr>keyframes := keyframes st @ [Keyframe ''rotation_quaternion'' frame (RotationValue rot)],
               rot_keys_dict := (if translations then (rot_keys_dict st)(frame \<mapsto> rot)
                                 else rot_keys_dict st)\<rparr>))"

subsection \<open>Translation keys\<close>

text \<open>Python's \<^verbatim>\<open>sub in s\<close> on strings.\<close>

primrec py_in :: "string \<Rightarrow> string \<Rightarrow> bool" where
  "py_in sub [] = (sub = [])"
| "py_in sub (c # cs) = (take (length sub) (c # cs) = sub \<or> py_in sub cs)"

definition set_quat_component :: "quat \<Rightarrow> nat \<Rightarrow> real \<Rightarrow> quat" where
  "set_quat_component q i v =
     (case q of (w, x, y, z) \<Rightarrow>
        if i = 0 then (v, x, y, z) else if i = 1 then (w, v, y, z)
        else if i = 2 then (w, x, v, z) else if i = 3 then (w, x, y, v) else q)"

definition set_euler_component :: "vec3 \<Rightarrow> nat \<Rightarrow> real \<Rightarrow> vec3" where
  "set_euler_component e i v =
     (case e of (x, y, z) \<Rightarrow>
        if i = 0 then (v, y, z) else if i = 1 then (x, v, z)
        else if i = 2 then (x, y, v) else e)"

text \<open>
  The slow method of lines 747 to 764: \<^verbatim>\<open>quat\<close> starts as \<^verbatim>\<open>Quaternion()\<close>, that is
  \<open>(1, 0, 0, 0)\<close>, and \<^verbatim>\<open>euler\<close> as \<^verbatim>\<open>None\<close>; every channel whose data path contains
  \<^verbatim>\<open>rotation_quaternion\<close> sets its component of \<^verbatim>\<open>quat\<close>, and every other channel whose
  data path contains \<^verbatim>\<open>rotation_euler\<close> makes \<^verbatim>\<open>euler\<close> a fresh \<^verbatim>\<open>Euler()\<close> and sets its
  component.
\<close>

definition slow_rotation_step :: "int \<Rightarrow> fcurve \<Rightarrow> quat \<times> vec3 option \<Rightarrow> quat \<times> vec3 option" where
  "slow_rotation_step frame fc st =
     (case st of (quat, euler) \<Rightarrow>
        if py_in ''rotation_quaternion'' (data_path fc)
          then (set_quat_component quat (array_index fc) (evaluate fc frame), euler)
        else if py_in ''rotation_euler'' (data_path fc)
          then (quat, Some (set_euler_component (0, 0, 0) (array_index fc) (evaluate fc frame)))
        else (quat, euler))"

definition slow_rotation :: "anim_env \<Rightarrow> int \<Rightarrow> mat3" where
  "slow_rotation env frame =
     (case fold (slow_rotation_step frame) (action_channels env) ((1, 0, 0, 0), None) of
        (quat, euler) \<Rightarrow>
          quaternion_to_matrix env
            (case euler of None \<Rightarrow> quat | Some e \<Rightarrow> euler_to_quaternion env e))"

text \<open>Lines 742 to 768: the rotation matrix at a frame, from \<^verbatim>\<open>rot_keys_dict\<close>.\<close>

definition rot_at_frame :: "anim_env \<Rightarrow> (int \<rightharpoonup> quat) \<Rightarrow> int \<Rightarrow> mat3" where
  "rot_at_frame env rot_keys frame =
     (if rot_keys \<noteq> Map.empty then
        (case rot_keys frame of
           Some q \<Rightarrow> quaternion_to_matrix env q
         | None \<Rightarrow> slow_rotation env frame)
      else IDENTITY33)"

text \<open>Lines 770 to 781: the scale at a frame, from \<^verbatim>\<open>scale_keys_dict\<close>.\<close>

definition size_at_frame :: "anim_env \<Rightarrow> (int \<rightharpoonup> real) \<Rightarrow> int \<Rightarrow> real" where
  "size_at_frame env scale_keys frame =
     (if scale_keys \<noteq> Map.empty then
        (case scale_keys frame of
           Some s \<Rightarrow> s
         | None \<Rightarrow>
             fold (\<lambda>fc sizeVal. if data_path fc = ''scale'' then evaluate fc frame else sizeVal)
               (named_action_channels env) 1)
      else 1)"

text \<open>
  The value at a frame of the last channel with a given property, or a default when no
  channel has it.
\<close>

definition channel_value :: "fcurve list \<Rightarrow> (fcurve \<Rightarrow> bool) \<Rightarrow> int \<Rightarrow> real \<Rightarrow> real" where
  "channel_value channels P frame dflt =
     (case filter P channels of [] \<Rightarrow> dflt | c # cs \<Rightarrow> evaluate (last (c # cs)) frame)"

text \<open>
  Lines 739 and 782 to 787: the location for a translation key, from the rotation matrix
  and the scale at the frame. Without the two divisions that can fail it is
  \<open>location_formula\<close>.
\<close>

definition location_formula :: "bone_bind \<Rightarrow> mat3 \<Rightarrow> real \<Rightarrow> vec3 \<Rightarrow> vec3" where
  "location_formula b rot sizeVal translation =
     (let locVal = mat_vec (mat_scale (niBone_bind_rot_inv b) (1 / niBone_bind_scale b))
                     (vec_sub translation (niBone_bind_trans b));
          size = ((sizeVal, 0, 0), (0, sizeVal, 0), (0, 0, sizeVal))
      in mat_vec (mat_scale (extra_matrix_rot_inv b) (1 / extra_matrix_scale b))
           (vec_sub (vec_add (mat_vec (mat_mul rot size) (extra_matrix_trans b)) locVal)
              (extra_matrix_trans b)))"

definition translation_key ::
  "anim_env \<Rightarrow> bone_bind \<Rightarrow> anim_state \<Rightarrow> int \<Rightarrow> vec3 \<Rightarrow> error + vec3" where
  "translation_key env b st frame translation =
     (if niBone_bind_scale b = 0 then Inl ZeroDivisionError
      else
        let rot = rot_at_frame env (rot_keys_dict st) frame;
            sizeVal = size_at_frame env (scale_keys_dict st) frame
        in if extra_matrix_scale b = 0 then Inl ZeroDivisionError
           else Inr (location_formula b rot sizeVal translation))"

fun translation_keys_loop ::
  "anim_env \<Rightarrow> bone_bind \<Rightarrow> (real \<times> vec3) list \<Rightarrow> anim_state \<Rightarrow> error + anim_state" where
  "translation_keys_loop env b [] st = Inr st"
| "translation_keys_loop env b ((time, keyVal) # keys) st =
     (let frame = frame_of (armature_fps env) time in
      case translation_key env b st frame keyVal of
        Inl e \<Rightarrow> Inl e
      | Inr loc \<Rightarrow>
          translation_keys_loop env b keys
            (st\<lparr>keyframes := keyframes st @ [Keyframe ''location'' frame (LocationValue loc)]\<rparr>))"

subsection \<open>The keys of one bone\<close>

definition bind_result :: "error + 'a \<Rightarrow> ('a \<Rightarrow> error + 'b) \<Rightarrow> error + 'b" where
  "bind_result r f = (case r of Inl e \<Rightarrow> Inl e | Inr x \<Rightarrow> f x)"

text \<open>The three phases of the branch for \<^verbatim>\<open>NiKeyframeData\<close> (lines 648 to 793), in order.\<close>

definition scale_phase :: "anim_env \<Rightarrow> bone_bind \<Rightarrow> keyframe_data \<Rightarrow> error + anim_state" where
  "scale_phase env b kfd =
     (if scales_keys kfd \<noteq> [] then scale_keys_loop env b (scales_keys kfd) initial_state
      else Inr initial_state)"

definition rotation_phase ::
  "anim_env \<Rightarrow> bone_bind \<Rightarrow> keyframe_data \<Rightarrow> anim_state \<Rightarrow> error + anim_state" where
  "rotation_phase env b kfd st =
     (if rotation_type kfd = 4 then
        (case xyz_rotations kfd of (xkeys, ykeys, zkeys) \<Rightarrow>
           if xkeys \<noteq> [] then euler_keys_loop env b (zip xkeys (zip ykeys zkeys)) st
           else Inr st)
      else
        (if quaternion_keys kfd \<noteq> [] then quaternion_keys_loop env b (quaternion_keys kfd) st
         else Inr st))"

definition translation_phase ::
  "anim_env \<Rightarrow> bone_bind \<Rightarrow> keyframe_data \<Rightarrow> anim_state \<Rightarrow> error + anim_state" where
  "translation_phase env b kfd st =
     (if translations_keys kfd \<noteq> [] then translation_keys_loop env b (translations_keys kfd) st
      else Inr st)"

definition import_keyframe_data ::
  "anim_env \<Rightarrow> bone_bind \<Rightarrow> keyframe_data \<Rightarrow> error + keyframe list" where
  "import_keyframe_data env b kfd =
     bind_result (scale_phase env b kfd) (\<lambda>st1.
     bind_result (rotation_phase env b kfd st1) (\<lambda>st2.
     bind_result (translation_phase env b kfd st2) (\<lambda>st3.
     Inr (keyframes st3))))"

text \<open>
  The identity bind pose with the identity extra matrix: scales 1, translations 0, and
  the inverse rotation matrices and quaternions of the identity rotation.
\<close>

definition identity_bind :: bone_bind where
  "identity_bind =
     \<lparr>niBone_bind_scale = 1, niBone_bind_rot_inv = IDENTITY33,
      niBone_bind_quat_inv = (1, 0, 0, 0), niBone_bind_trans = (0, 0, 0),
      extra_matrix_scale = 1, extra_matrix_rot_inv = IDENTITY33,
      extra_matrix_quat = (1, 0, 0, 0), extra_matrix_quat_inv = (1, 0, 0, 0),
      extra_matrix_trans = (0, 0, 0)\<rparr>"

text \<open>Whether an insertion is a location.\<close>

fun is_location :: "keyframe \<Rightarrow> bool" where
  "is_location (Keyframe p f (LocationValue v)) = True"
| "is_location (Keyframe p f v) = False"

text \<open>
  The insertions and the dictionaries agree: no location has been inserted, every entry
  of a dictionary is the value of an insertion at that frame, and every inserted rotation
  or scale has an entry at its frame.
\<close>

definition samples_recorded :: "anim_state \<Rightarrow> bool" where
  "samples_recorded st \<longleftrightarrow>
     (\<forall>k \<in> set (keyframes st). \<not> is_location k) \<and>
     (\<forall>f q. rot_keys_dict st f = Some q \<longrightarrow> (\<exists>p. Keyframe p f (RotationValue q) \<in> set (keyframes st))) \<and>
     (\<forall>p f q. Keyframe p f (RotationValue q) \<in> set (keyframes st) \<longrightarrow> f \<in> dom (rot_keys_dict st)) \<and>
     (\<forall>f s. scale_keys_dict st f = Some s \<longrightarrow> (\<exists>p. Keyframe p f (ScaleValue s) \<in> set (keyframes st))) \<and>
     (\<forall>p f s. Keyframe p f (ScaleValue s) \<in> set (keyframes st) \<longrightarrow> f \<in> dom (scale_keys_dict st))"

text \<open>
  For concrete runs: the rotation matrix of a unit quaternion, as \<^verbatim>\<open>Quaternion.to_matrix\<close>
  gives it, and an environment with 30 frames per second, no \<^verbatim>\<open>properties\<close> attribute,
  no channels, and an Euler conversion that returns the half turn about X, the quaternion
  of the angles \<open>(pi, 0, 0)\<close>, for the keys of the examples.
\<close>

definition quat_to_mat3 :: "quat \<Rightarrow> mat3" where
  "quat_to_mat3 q =
     (case q of (w, x, y, z) \<Rightarrow>
        ((1 - 2 * (y * y + z * z), 2 * (x * y - z * w), 2 * (x * z + y * w)),
         (2 * (x * y + z * w), 1 - 2 * (x * x + z * z), 2 * (y * z - x * w)),
         (2 * (x * z - y * w), 2 * (y * z + x * w), 1 - 2 * (x * x + y * y))))"

definition example_env :: anim_env where
  "example_env =
     \<lparr>animation_fps = 30, armature_fps = 30, properties_epsilon = None,
      quaternion_to_matrix = quat_to_mat3, euler_to_quaternion = (\<lambda>e. (0, 1, 0, 0)),
      action_channels = [], named_action_channels = []\<rparr>"



text \<open>
  Four rotation channels of a bone, one for each component of its quaternion, that
  evaluate to the half turn about Z at every frame.
\<close>

definition example_channels :: "fcurve list" where
  "example_channels =
     [\<lparr>data_path = ''rotation_quaternion'', array_index = 0, evaluate = (\<lambda>frame. 0)\<rparr>,
      \<lparr>data_path = ''rotation_quaternion'', array_index = 1, evaluate = (\<lambda>frame. 0)\<rparr>,
      \<lparr>data_path = ''rotation_quaternion'', array_index = 2, evaluate = (\<lambda>frame. 0)\<rparr>,
      \<lparr>data_path = ''rotation_quaternion'', array_index = 3, evaluate = (\<lambda>frame. 1)\<rparr>]"

section \<open>Frame convention: results\<close>

lemma py_int_round: "- (1/2) \<le> x \<Longrightarrow> py_int (x + 1/2) = round x"
  by (simp add: py_int_def round_def)

lemma fps_diff_rounding_error:
  assumes "\<forall>t \<in> set ts. - (1/2) \<le> t * of_int fps"
  shows "fps_diff fps ts = rounding_error fps ts"
  using assms unfolding fps_diff_def rounding_error_def
  by (induction ts) (simp_all add: py_int_round)

text \<open>
  C8 (amended). Whenever \<open>time * fps\<close> is at least \<open>-1/2\<close> (every non-negative time at a
  non-negative rate), the frame of a key is \<open>round (time * fps) + 1\<close>; time 0 is frame 1
  at every rate.
\<close>

theorem frame_of_round:
  "(- (1/2) \<le> time * fps \<longrightarrow> frame_of fps time = round (time * fps) + 1) \<and> frame_of fps 0 = 1"
proof -
  have "frame_of fps 0 = 1"
    by (simp add: frame_of_def py_int_def)
  moreover have "- (1/2) \<le> time * fps \<longrightarrow> frame_of fps time = round (time * fps) + 1"
    by (simp add: frame_of_def py_int_round)
  ultimately show ?thesis by simp
qed

theorem frame_of_round_witness:
  "- (1/2) \<le> (2/5) * (30::real) \<and> frame_of 30 (2/5) = round ((2/5) * (30::real)) + 1 \<and> frame_of 30 0 = 1"
  using frame_of_round [of "2/5" 30] by simp

text \<open>
  At time \<open>-1\<close> and 30 frames per second the code truncates \<open>-29.5\<close> to \<open>-29\<close> and emits
  frame \<open>-28\<close>, while \<open>round (-30) + 1 = -29\<close>.
\<close>

theorem frame_of_negative_counterexample:
  "frame_of 30 (-1) = -28 \<and> round ((-1) * (30::real)) + 1 = -29"
  by (simp add: frame_of_def py_int_def)

section \<open>Frame rate estimation: results\<close>

lemma fps_first_min:
  assumes "ts \<noteq> []" and nn: "\<forall>t \<in> set ts. - (1/2) \<le> t * 35"
  shows "get_frames_per_second ts \<in> set [30, 20, 25, 35] \<and>
     (\<forall>c \<in> set [30, 20, 25, 35]. rounding_error (get_frames_per_second ts) ts \<le> rounding_error c ts) \<and>
     (\<forall>c \<in> set (takeWhile (\<lambda>c. c \<noteq> get_frames_per_second ts) [30, 20, 25, 35]).
         rounding_error (get_frames_per_second ts) ts < rounding_error c ts)"
proof -
  have b: "\<forall>t \<in> set ts. - (1/2) \<le> t * of_int c" if "c \<in> {20, 25, 30, 35}" for c :: int
  proof
    fix t assume "t \<in> set ts"
    with nn have "- (1/2) \<le> t * 35" by blast
    with that show "- (1/2) \<le> t * of_int c" by auto
  qed
  have e: "fps_diff c ts = rounding_error c ts" if "c \<in> {20, 25, 30, 35}" for c :: int
    using fps_diff_rounding_error [OF b [OF that]] .
  define e30 where "e30 = rounding_error 30 ts"
  define e20 where "e20 = rounding_error 20 ts"
  define e25 where "e25 = rounding_error 25 ts"
  define e35 where "e35 = rounding_error 35 ts"
  have d: "fps_diff 30 ts = e30" "fps_diff 20 ts = e20" "fps_diff 25 ts = e25" "fps_diff 35 ts = e35"
    by (simp_all add: e e30_def e20_def e25_def e35_def)
  have r: "get_frames_per_second ts =
      (if e20 < e30 then (if e25 < e20 then (if e35 < e25 then 35 else 25) else (if e35 < e20 then 35 else 20))
       else (if e25 < e30 then (if e35 < e25 then 35 else 25) else (if e35 < e30 then 35 else 30)))"
    using assms(1) by (simp add: get_frames_per_second_def fps_step_def d Let_def)
  show ?thesis
    unfolding r using e30_def e20_def e25_def e35_def
    by (auto split: if_splits)
qed

text \<open>
  C5 (amended). Without key times the rate is 30. For a non-empty list of key times \<open>t\<close>
  with \<open>35 * t \<ge> -1/2\<close> (in particular non-negative times), the result is a candidate
  among 30, 20, 25, 35 whose total rounding error is minimal, and every candidate
  evaluated before it (in the order 30, 20, 25, 35) has a strictly larger error, so that
  30 wins every tie it takes part in. Times aligned to 1/25 s select 25, and the times
  0.1, 0.2, 0.3 select 30.
\<close>

theorem get_frames_per_second_first_minimum:
  "get_frames_per_second [] = 30 \<and>
   (ts \<noteq> [] \<and> (\<forall>t \<in> set ts. - (1/2) \<le> t * 35) \<longrightarrow>
      get_frames_per_second ts \<in> set [30, 20, 25, 35] \<and>
      (\<forall>c \<in> set [30, 20, 25, 35].
          rounding_error (get_frames_per_second ts) ts \<le> rounding_error c ts) \<and>
      (\<forall>c \<in> set (takeWhile (\<lambda>c. c \<noteq> get_frames_per_second ts) [30, 20, 25, 35]).
          rounding_error (get_frames_per_second ts) ts < rounding_error c ts)) \<and>
   get_frames_per_second [1/25, 2/25, 3/25] = 25 \<and>
   get_frames_per_second [1/10, 2/10, 3/10] = 30"
proof -
  have "get_frames_per_second [] = 30"
    by (simp add: get_frames_per_second_def)
  moreover have "get_frames_per_second [1/25, 2/25, 3/25] = 25"
    by (simp add: get_frames_per_second_def fps_step_def fps_diff_def py_int_def Let_def)
  moreover have "get_frames_per_second [1/10, 2/10, 3/10] = 30"
    by (simp add: get_frames_per_second_def fps_step_def fps_diff_def py_int_def Let_def)
  moreover have "ts \<noteq> [] \<and> (\<forall>t \<in> set ts. - (1/2) \<le> t * 35) \<longrightarrow>
      get_frames_per_second ts \<in> set [30, 20, 25, 35] \<and>
      (\<forall>c \<in> set [30, 20, 25, 35].
          rounding_error (get_frames_per_second ts) ts \<le> rounding_error c ts) \<and>
      (\<forall>c \<in> set (takeWhile (\<lambda>c. c \<noteq> get_frames_per_second ts) [30, 20, 25, 35]).
          rounding_error (get_frames_per_second ts) ts < rounding_error c ts)"
  proof
    assume h: "ts \<noteq> [] \<and> (\<forall>t \<in> set ts. - (1/2) \<le> t * 35)"
    show "get_frames_per_second ts \<in> set [30, 20, 25, 35] \<and>
      (\<forall>c \<in> set [30, 20, 25, 35].
          rounding_error (get_frames_per_second ts) ts \<le> rounding_error c ts) \<and>
      (\<forall>c \<in> set (takeWhile (\<lambda>c. c \<noteq> get_frames_per_second ts) [30, 20, 25, 35]).
          rounding_error (get_frames_per_second ts) ts < rounding_error c ts)"
      by (rule fps_first_min [OF conjunct1 [OF h] conjunct2 [OF h]])
  qed
  ultimately show ?thesis
    by (intro conjI)
qed

theorem get_frames_per_second_first_minimum_witness:
  "[1/25, 2/25, 3/25 :: real] \<noteq> [] \<and>
   get_frames_per_second [1/25, 2/25, 3/25] = 25 \<and>
   rounding_error 25 [1/25, 2/25, 3/25] < rounding_error 30 [1/25, 2/25, 3/25] \<and>
   rounding_error 25 [1/25, 2/25, 3/25] \<le> rounding_error 35 [1/25, 2/25, 3/25]"
proof -
  let ?ts = "[1/25, 2/25, 3/25 :: real]"
  have h: "?ts \<noteq> [] \<and> (\<forall>t \<in> set ?ts. - (1/2) \<le> t * 35)"
    by simp
  note t = get_frames_per_second_first_minimum [of ?ts]
  have r: "get_frames_per_second ?ts = 25"
    by (rule conjunct1 [OF conjunct2 [OF conjunct2 [OF t]]])
  note u = mp [OF conjunct1 [OF conjunct2 [OF t]] h]
  have m: "\<forall>c \<in> set [30, 20, 25, 35]. rounding_error (get_frames_per_second ?ts) ?ts \<le> rounding_error c ?ts"
    by (rule conjunct1 [OF conjunct2 [OF u]])
  have f: "\<forall>c \<in> set (takeWhile (\<lambda>c. c \<noteq> get_frames_per_second ?ts) [30, 20, 25, 35]).
          rounding_error (get_frames_per_second ?ts) ?ts < rounding_error c ?ts"
    by (rule conjunct2 [OF conjunct2 [OF u]])
  from m have "rounding_error 25 ?ts \<le> rounding_error 35 ?ts"
    unfolding r by simp
  moreover from f have "rounding_error 25 ?ts < rounding_error 30 ?ts"
    unfolding r by simp
  ultimately show ?thesis using r by simp
qed

text \<open>
  For the single key time \<open>-1/20\<close> the code returns 30, although 20 has rounding error 0
  and 30 has rounding error 1/2: below \<open>-1/2\<close> the truncation \<^verbatim>\<open>int(x + 0.5)\<close> is not
  a rounding, and the sums the code compares are not the rounding errors.
\<close>

theorem get_frames_per_second_negative_counterexample:
  "get_frames_per_second [- (1/20)] = 30 \<and>
   rounding_error 20 [- (1/20)] < rounding_error 30 [- (1/20)]"
  by (simp add: get_frames_per_second_def fps_step_def fps_diff_def rounding_error_def
      py_int_def Let_def round_def)

section \<open>Correction matrices: results\<close>

lemma fold_max_ge: "(a::int) \<le> fold max xs a \<and> (\<forall>x \<in> set xs. x \<le> fold max xs a)"
proof (induction xs arbitrary: a)
  case Nil
  then show ?case by simp
next
  case (Cons y ys)
  from Cons.IH [of "max y a"] show ?case by auto
qed

lemma fold_max_mem: "fold max xs (a::int) \<in> set (a # xs)"
proof (induction xs arbitrary: a)
  case Nil
  then show ?case by simp
next
  case (Cons y ys)
  from Cons.IH [of "max y a"] show ?case by (auto simp: max_def split: if_splits)
qed

lemma max_list_mem: "xs \<noteq> [] \<Longrightarrow> max_list xs \<in> set xs"
  by (cases xs) (simp_all add: fold_max_mem del: set_simps)

lemma max_list_ge: "x \<in> set xs \<Longrightarrow> x \<le> max_list xs"
  by (cases xs) (use fold_max_ge in auto)

lemma index_of_first:
  "v \<in> set xs \<Longrightarrow> index_of xs v < length xs \<and> xs ! index_of xs v = v \<and> (\<forall>j < index_of xs v. xs ! j \<noteq> v)"
proof (induction xs)
  case Nil
  then show ?case by simp
next
  case (Cons x xs)
  show ?case
  proof (cases "x = v")
    case True
    then show ?thesis by simp
  next
    case False
    with Cons have IH: "index_of xs v < length xs \<and> xs ! index_of xs v = v \<and> (\<forall>j < index_of xs v. xs ! j \<noteq> v)"
      by simp
    show ?thesis using False IH by (auto simp: nth_Cons split: nat.splits)
  qed
qed

lemma length_list_xyz: "length (list_xyz s) = 6"
  by (cases s) (simp add: list_xyz_def)

lemma idx_correction_first_max:
  "idx_correction s < 6 \<and>
   (\<forall>j < 6. list_xyz s ! j \<le> list_xyz s ! idx_correction s) \<and>
   (\<forall>j < idx_correction s. list_xyz s ! j < list_xyz s ! idx_correction s)"
proof -
  let ?xs = "list_xyz s"
  have ne: "?xs \<noteq> []" using length_list_xyz [of s] by auto
  have mem: "max_list ?xs \<in> set ?xs" by (rule max_list_mem [OF ne])
  have f: "idx_correction s < length ?xs" "?xs ! idx_correction s = max_list ?xs"
    "\<forall>j < idx_correction s. ?xs ! j \<noteq> max_list ?xs"
    using index_of_first [OF mem] by (simp_all add: idx_correction_def)
  have le: "?xs ! j \<le> max_list ?xs" if "j < 6" for j
    using that by (intro max_list_ge nth_mem) (simp add: length_list_xyz)
  have "?xs ! j < ?xs ! idx_correction s" if "j < idx_correction s" for j
  proof -
    from that f(1) have "j < 6" by (simp add: length_list_xyz)
    from le [OF this] f(3) that show ?thesis by (simp add: f(2) less_le)
  qed
  with f le show ?thesis by (simp add: length_list_xyz)
qed

lemma alignment_offset_ratio:
  assumes "dominant_abs s (idx_correction s) \<noteq> 0"
  shows "alignment_offset s = non_dominant_abs_sum s (idx_correction s) / dominant_abs s (idx_correction s)"
proof -
  obtain x y z where s: "s = (x, y, z)" by (cases s)
  have "idx_correction s < 6" using idx_correction_first_max by blast
  then consider "idx_correction s = 0" | "idx_correction s = 1" | "idx_correction s = 2"
    | "idx_correction s = 3" | "idx_correction s = 4" | "idx_correction s = 5"
    by linarith
  then show ?thesis
    using assms
    by cases (simp_all add: alignment_offset_def dominant_abs_def non_dominant_abs_sum_def
        axis_component_def s Let_def add.commute)
qed

text \<open>
  C2 (amended). The selected index is the first maximal position among the six
  candidates after scaling by 200 and truncating to an integer. When the component of
  the offset on the selected axis is not zero, the alignment offset is the sum of the two
  other absolute components over that absolute component. The hardcoded matrix of the
  selected index is returned when the alignment offset is below 0.25 and the identity
  otherwise; 0.24999 and 0.25001 fall on different sides, and 0.25 gives the identity.
\<close>

theorem select_correction_threshold:
  "idx_correction s < 6 \<and>
   (\<forall>j < 6. list_xyz s ! j \<le> list_xyz s ! idx_correction s) \<and>
   (\<forall>j < idx_correction s. list_xyz s ! j < list_xyz s ! idx_correction s) \<and>
   (dominant_abs s (idx_correction s) \<noteq> 0 \<longrightarrow>
      alignment_offset s =
        non_dominant_abs_sum s (idx_correction s) / dominant_abs s (idx_correction s)) \<and>
   select_correction s =
     (if alignment_offset s < 1/4 then BONE_CORRECTION_MATRICES ! idx_correction s
      else IDENTITY33) \<and>
   select_correction (1, 24999/100000, 0) = BONE_CORRECTION_MATRICES ! 0 \<and>
   select_correction (1, 25001/100000, 0) = IDENTITY33 \<and>
   select_correction (1, 1/4, 0) = IDENTITY33"
proof -
  have "select_correction (1, 24999/100000, 0) = BONE_CORRECTION_MATRICES ! 0"
    "select_correction (1, 25001/100000, 0) = IDENTITY33"
    "select_correction (1, 1/4, 0) = IDENTITY33"
    by (simp_all add: select_correction_def alignment_offset_def idx_correction_def
        list_xyz_def py_int_def Let_def)
  moreover have "select_correction s =
     (if alignment_offset s < 1/4 then BONE_CORRECTION_MATRICES ! idx_correction s
      else IDENTITY33)"
    by (simp add: select_correction_def)
  moreover have "dominant_abs s (idx_correction s) \<noteq> 0 \<longrightarrow>
      alignment_offset s =
        non_dominant_abs_sum s (idx_correction s) / dominant_abs s (idx_correction s)"
    by (rule impI) (rule alignment_offset_ratio)
  moreover note idx_correction_first_max [of s]
  ultimately show ?thesis
    by (elim conjE, intro conjI)
qed

theorem select_correction_threshold_witness:
  "dominant_abs (0, 3, 1/2) (idx_correction (0, 3, 1/2)) \<noteq> 0 \<and>
   idx_correction (0, 3, 1/2) = 1 \<and>
   alignment_offset (0, 3, 1/2) = 1/6 \<and>
   list_xyz (0, 3, 1/2) ! 0 < list_xyz (0, 3, 1/2) ! idx_correction (0, 3, 1/2) \<and>
   select_correction (0, 3, 1/2) = BONE_CORRECTION_MATRICES ! 1"
proof -
  have i: "idx_correction (0, 3, 1/2) = 1"
    by (simp add: idx_correction_def list_xyz_def py_int_def)
  show ?thesis
    using select_correction_threshold [of "(0, 3, 1/2)"]
    by (simp add: i dominant_abs_def non_dominant_abs_sum_def axis_component_def)
qed

text \<open>
  For the offset (0.001, 0, 0.0041) the six scaled candidates all truncate to 0, so the
  code selects index 0 (+X), finds the alignment offset 4.1 and returns the identity. The
  scaled candidates themselves have their maximum at index 2 (+Z), where the ratio of the
  non-dominant to the dominant component is below 0.25: the selector as the
  specification words it returns the +Z matrix, which is not the identity.
\<close>

theorem select_correction_truncation_counterexample:
  "select_correction (1/1000, 0, 41/10000) = IDENTITY33 \<and>
   spec_select_correction (1/1000, 0, 41/10000) = Some (BONE_CORRECTION_MATRICES ! 2) \<and>
   BONE_CORRECTION_MATRICES ! 2 \<noteq> IDENTITY33"
  by (simp add: select_correction_def alignment_offset_def idx_correction_def list_xyz_def
      py_int_def Let_def spec_select_correction_def spec_argmax_def dominant_abs_def
      non_dominant_abs_sum_def axis_component_def BONE_CORRECTION_MATRICES_def IDENTITY33_def)

text \<open>
  C10. \<open>find_correction_matrix\<close> returns the identity whenever the realign option is not 2
  or the block is not marked as a bone of an armature; a result other than the identity
  needs option 2 and a marked bone.
\<close>

theorem find_correction_matrix_gate:
  "(import_realign_bones \<noteq> 2 \<or> \<not> is_bone DICT_ARMATURES n_block \<longrightarrow>
      find_correction_matrix import_realign_bones DICT_ARMATURES children import_matrix
        n_block n_armature = IDENTITY33) \<and>
   (find_correction_matrix import_realign_bones DICT_ARMATURES children import_matrix
        n_block n_armature \<noteq> IDENTITY33 \<longrightarrow>
      import_realign_bones = 2 \<and> is_bone DICT_ARMATURES n_block)"
  by (auto simp: find_correction_matrix_def)

theorem find_correction_matrix_gate_witness:
  "find_correction_matrix 1 [(0::nat, [Some 1])] (\<lambda>_. [])
      (\<lambda>_ _. ((1, 0, 0, 5), (0, 1, 0, 0), (0, 0, 1, 0), (0, 0, 0, 1))) (Some 1) 0 = IDENTITY33 \<and>
   find_correction_matrix 2 [(0::nat, [Some 1])] (\<lambda>_. [])
      (\<lambda>_ _. ((1, 0, 0, 5), (0, 1, 0, 0), (0, 0, 1, 0), (0, 0, 0, 1))) (Some 2) 0 = IDENTITY33 \<and>
   is_bone [(0::nat, [Some 1])] (Some 1) \<and>
   find_correction_matrix 2 [(0::nat, [Some 1])] (\<lambda>_. [])
      (\<lambda>_ _. ((1, 0, 0, 5), (0, 1, 0, 0), (0, 0, 1, 0), (0, 0, 0, 1))) (Some 1) 0 \<noteq> IDENTITY33"
proof -
  let ?m = "\<lambda>(_::nat) (_::nat option). ((1, 0, 0, 5), (0, 1, 0, 0), (0, 0, 1, 0), (0, 0, 0, 1::real))"
  have a: "\<not> is_bone [(0::nat, [Some 1])] (Some 2)" "is_bone [(0::nat, [Some 1])] (Some 1)"
    by (simp_all add: is_bone_def)
  have s0: "select_correction (0, 0, 0) = BONE_CORRECTION_MATRICES ! 0"
    by (simp add: select_correction_def alignment_offset_def idx_correction_def list_xyz_def
        py_int_def Let_def)
  have ne: "BONE_CORRECTION_MATRICES ! 0 \<noteq> IDENTITY33"
    by (simp add: BONE_CORRECTION_MATRICES_def IDENTITY33_def)
  have "find_correction_matrix 2 [(0::nat, [Some 1])] (\<lambda>_. []) ?m (Some 1) 0 =
      select_correction (0, 0, 0)"
    by (simp add: find_correction_matrix_def is_bone_def row3_def)
  with s0 ne
  have b: "find_correction_matrix 2 [(0::nat, [Some 1])] (\<lambda>_. []) ?m (Some 1) 0 \<noteq> IDENTITY33"
    by simp
  have c: "find_correction_matrix 1 [(0::nat, [Some 1])] (\<lambda>_. []) ?m (Some 1) 0 = IDENTITY33"
    by (rule mp [OF conjunct1 [OF find_correction_matrix_gate]]) simp
  have d: "find_correction_matrix 2 [(0::nat, [Some 1])] (\<lambda>_. []) ?m (Some 2) 0 = IDENTITY33"
    by (rule mp [OF conjunct1 [OF find_correction_matrix_gate]]) (simp add: is_bone_def)
  from a(2) b c d show ?thesis
    by (intro conjI)
qed

section \<open>Completing the bone tree: results\<close>

lemma is_bone_map_of:
  assumes "map_of arms r = Some bones" "Some n \<in> set bones"
  shows "is_bone arms (Some n)"
proof -
  from assms(1) have "(r, bones) \<in> set arms" by (rule map_of_SomeD)
  then have "bones \<in> set (map snd arms)" by force
  with assms(2) show ?thesis by (auto simp: is_bone_def list_ex_iff)
qed

lemma complete_bone_tree_chain:
  assumes "parent_chain parent bone skelroot ns"
    and "map_of arms skelroot = Some bones"
    and "Some bone \<in> set bones"
  shows "\<exists>arms' bones'. complete_bone_tree parent arms (Some bone) skelroot = Some (Inr arms') \<and>
      map_of arms' skelroot = Some bones' \<and>
      set bones' = set bones \<union> Some ` set ns \<and>
      (\<forall>k. k \<noteq> skelroot \<longrightarrow> map_of arms' k = map_of arms k)"
  using assms
proof (induction ns arbitrary: bone arms bones)
  case Nil
  then show ?case
    by (subst complete_bone_tree.simps) simp
next
  case (Cons n ns)
  then have p: "parent bone = Some n" and ne: "n \<noteq> skelroot"
    and ch: "parent_chain parent n skelroot ns"
    by simp_all
  define arms2 where "arms2 = (if Some n \<notin> set bones
      then AList.update skelroot (bones @ [Some n]) arms else arms)"
  define bones2 where "bones2 = (if Some n \<notin> set bones then bones @ [Some n] else bones)"
  have m2: "map_of arms2 skelroot = Some bones2"
    using Cons.prems(2) by (simp add: arms2_def bones2_def update_conv')
  have in2: "Some n \<in> set bones2"
    by (simp add: bones2_def)
  have other: "map_of arms2 k = map_of arms k" if "k \<noteq> skelroot" for k
    using that by (simp add: arms2_def update_conv')
  from Cons.IH [OF ch m2 in2] obtain arms' bones' where
    r: "complete_bone_tree parent arms2 (Some n) skelroot = Some (Inr arms')"
    and m: "map_of arms' skelroot = Some bones'"
    and s: "set bones' = set bones2 \<union> Some ` set ns"
    and o: "\<forall>k. k \<noteq> skelroot \<longrightarrow> map_of arms' k = map_of arms2 k"
    by blast
  have "complete_bone_tree parent arms (Some bone) skelroot = Some (Inr arms')"
    using Cons.prems(2,3) p ne r
    by (subst complete_bone_tree.simps) (simp add: arms2_def)
  moreover have "set bones' = set bones \<union> Some ` set (n # ns)"
    using s by (auto simp: bones2_def)
  moreover have "\<forall>k. k \<noteq> skelroot \<longrightarrow> map_of arms' k = map_of arms k"
    using o other by simp
  ultimately show ?case using m by blast
qed

text \<open>
  C3. When the bone is marked in the armature's list and the armature root is an ancestor
  of the bone, \<open>complete_bone_tree\<close> returns (the recursion ascends the parent chain once
  per block between the bone and the root), it raises nothing, and in the resulting
  dictionary the bone and every block between it and the root are bones; the armature's
  list has gained exactly those blocks, and no other armature has changed.
\<close>

theorem complete_bone_tree_terminates:
  assumes "parent_chain parent bone skelroot ns"
    and "map_of DICT_ARMATURES skelroot = Some bones"
    and "Some bone \<in> set bones"
  shows "\<exists>arms' bones'.
      complete_bone_tree parent DICT_ARMATURES (Some bone) skelroot = Some (Inr arms') \<and>
      map_of arms' skelroot = Some bones' \<and>
      set bones' = set bones \<union> Some ` set ns \<and>
      (\<forall>k. k \<noteq> skelroot \<longrightarrow> map_of arms' k = map_of DICT_ARMATURES k) \<and>
      (\<forall>n \<in> set (bone # ns). is_bone arms' (Some n))"
proof -
  from complete_bone_tree_chain [OF assms] obtain arms' bones' where
    r: "complete_bone_tree parent DICT_ARMATURES (Some bone) skelroot = Some (Inr arms')"
    and m: "map_of arms' skelroot = Some bones'"
    and s: "set bones' = set bones \<union> Some ` set ns"
    and o: "\<forall>k. k \<noteq> skelroot \<longrightarrow> map_of arms' k = map_of DICT_ARMATURES k"
    by blast
  have "is_bone arms' (Some n)" if "n \<in> set (bone # ns)" for n
  proof (rule is_bone_map_of [OF m])
    show "Some n \<in> set bones'" using that assms(3) s by auto
  qed
  with r m s o show ?thesis by blast
qed

theorem complete_bone_tree_terminates_witness:
  "parent_chain (\<lambda>n::nat. if n = 0 then None else Some (n - 1)) 3 0 [2, 1] \<and>
   complete_bone_tree (\<lambda>n::nat. if n = 0 then None else Some (n - 1))
      [(0, [Some 3])] (Some 3) 0 = Some (Inr [(0, [Some 3, Some 2, Some 1])]) \<and>
   is_bone [(0::nat, [Some 3, Some 2, Some 1])] (Some 2)"
proof -
  let ?p = "\<lambda>n::nat. if n = 0 then None else Some (n - 1)"
  have c: "parent_chain ?p 3 0 [2, 1]" by simp
  have m: "map_of [(0::nat, [Some (3::nat)])] 0 = Some [Some 3]" by simp
  have i: "Some (3::nat) \<in> set [Some 3]" by simp
  have e: "complete_bone_tree ?p [(0, [Some 3])] (Some 3) 0 = Some (Inr [(0, [Some 3, Some 2, Some 1])])"
    apply (subst complete_bone_tree.simps, simp)
    apply (subst complete_bone_tree.simps, simp)
    apply (subst complete_bone_tree.simps, simp)
    done
  from complete_bone_tree_terminates [OF c m i] e
  have "is_bone [(0::nat, [Some 3, Some 2, Some 1])] (Some 2)" by simp
  with c e show ?thesis by (intro conjI)
qed

section \<open>Head and tail of a bone: results\<close>

lemma normalize_unit: "vec_length d \<noteq> 0 \<Longrightarrow> vec_length (normalize d) = 1"
proof -
  obtain x y z where d: "d = (x, y, z)" by (cases d)
  assume "vec_length d \<noteq> 0"
  then have n: "sqrt (x * x + y * y + z * z) \<noteq> 0" by (simp add: vec_length_def d)
  define n where "n = sqrt (x * x + y * y + z * z)"
  have n0: "n \<noteq> 0" using n by (simp add: n_def)
  have nn: "0 \<le> x * x + y * y + z * z" by simp
  have sq: "n * n = x * x + y * y + z * z"
    unfolding n_def using nn by simp
  have e: "(x / n) * (x / n) + (y / n) * (y / n) + (z / n) * (z / n) = (x * x + y * y + z * z) / (n * n)"
    by (simp add: add_divide_distrib)
  have e1: "(x * x + y * y + z * z) / (n * n) = 1"
    unfolding sq [symmetric] using n0 by simp
  have "normalize d = (x / n, y / n, z / n)"
    using n by (simp add: normalize_def d Let_def n_def)
  then have "vec_length (normalize d) = sqrt ((x / n) * (x / n) + (y / n) * (y / n) + (z / n) * (z / n))"
    by (simp add: vec_length_def)
  also have "\<dots> = sqrt 1"
    by (simp only: e e1)
  finally show ?thesis by simp
qed

lemma import_bone_unfold:
  assumes bone: "is_bone arms (Some n_block)"
  shows "import_bone realign epsilon scale arms children parent import_matrix edit_bones n_block n_armature =
    (let h = bone_position import_matrix n_armature n_block;
         cps = child_bone_positions arms children import_matrix n_armature n_block;
         avg = average_position cps;
         t0 = (if cps = [] then h else avg)
     in if cps = [] \<or> \<bar>component_sum (vec_sub h avg)\<bar> * 200 < epsilon then
          (if realign = 2 \<or> \<not> is_bone arms (parent n_block) then
             Inr (Some \<lparr>head = h, tail = (fst h + 5 * scale, fst (snd t0), snd (snd t0)),
                        is_zero_length = True\<rparr>)
           else
             (case parent n_block of
                None \<Rightarrow> Inl AttributeError
              | Some p \<Rightarrow>
                  (case edit_bones p of
                     None \<Rightarrow> Inl KeyError
                   | Some (ph, pt) \<Rightarrow>
                       Inr (Some \<lparr>head = h,
                          tail = vec_add h (scale_vec (5 * scale)
                            (normalize (if \<bar>component_sum (vec_sub h pt)\<bar> * 200 < epsilon
                                        then vec_sub pt ph else vec_sub h pt))),
                          is_zero_length = True\<rparr>))))
        else Inr (Some \<lparr>head = h, tail = avg, is_zero_length = False\<rparr>))"
proof -
  have bp: "bone_position import_matrix n_armature =
      (\<lambda>b. translation_column (import_matrix b (Some n_armature)))"
    by (rule ext) (simp add: bone_position_def)
  show ?thesis
  using bone
  by (simp add: import_bone_def bp child_bone_positions_def component_sum_def
      vec_sub_def vec_add_def scale_vec_def split_def Let_def comp_def mult.assoc
      split: option.splits)
qed



lemma component_sum_le_abs: "\<bar>component_sum v\<bar> \<le> abs_component_sum v"
  by (cases v) (simp add: component_sum_def abs_component_sum_def)

text \<open>
  C6 (amended). For a block marked as a bone, \<open>import_bone\<close> sets the head to the bone's
  own armature-space position, and a bone that is not classified zero-length has bone
  children and the average of their positions as its tail. The bone is classified
  zero-length when it has no bone children or the children's average coincides with the
  head within the threshold: the absolute components of head minus average, added and
  taken times 200, stay below epsilon. With bone children whose average is off the head
  by the threshold or more it is not zero-length and keeps the average as its tail; what
  is left open are the offsets whose components cancel, so that their signed sum falls
  below the threshold. A zero-length bone receives a nub: when the realign option is 2 or
  the parent is not a bone, the tail takes the head's x plus \<open>5 * scale\<close> (without
  children it is the head plus \<open>(5 * scale, 0, 0)\<close>; with children its y and z are those of
  the average); otherwise the tail is the head plus \<open>5 * scale\<close> times the normalised
  direction, which is head minus parent tail when that offset is off by the threshold or
  more (cancelling components left open again) and parent tail minus parent head when
  the head coincides with the parent's tail within the threshold. A normalised non-zero
  direction has length 1.
\<close>

theorem import_bone_head_tail:
  fixes import_matrix :: "'n \<Rightarrow> 'n option \<Rightarrow> mat4"
    and n_armature n_block :: 'n and DICT_ARMATURES :: "'n armatures" and children :: "'n \<Rightarrow> 'n list"
    and import_realign_bones :: int and epsilon scale :: real and parent :: "'n \<Rightarrow> 'n option"
    and edit_bones :: "'n \<Rightarrow> (vec3 \<times> vec3) option"
  assumes bone: "is_bone DICT_ARMATURES (Some n_block)"
  defines "h \<equiv> bone_position import_matrix n_armature n_block"
    and "cps \<equiv> child_bone_positions DICT_ARMATURES children import_matrix n_armature n_block"
    and "res \<equiv> import_bone import_realign_bones epsilon scale DICT_ARMATURES children parent
          import_matrix edit_bones n_block n_armature"
  shows "(\<forall>pl. res = Inr (Some pl) \<longrightarrow>
            head pl = h \<and> (\<not> is_zero_length pl \<longrightarrow> cps \<noteq> [] \<and> tail pl = average_position cps)) \<and>
         (cps \<noteq> [] \<and> epsilon \<le> abs_component_sum (vec_sub h (average_position cps)) * 200 \<and>
          epsilon \<le> \<bar>component_sum (vec_sub h (average_position cps))\<bar> * 200 \<longrightarrow>
            res = Inr (Some \<lparr>head = h, tail = average_position cps, is_zero_length = False\<rparr>)) \<and>
         (cps = [] \<and> (import_realign_bones = 2 \<or> \<not> is_bone DICT_ARMATURES (parent n_block)) \<longrightarrow>
            res = Inr (Some \<lparr>head = h, tail = vec_add h (5 * scale, 0, 0), is_zero_length = True\<rparr>)) \<and>
         (cps \<noteq> [] \<and> abs_component_sum (vec_sub h (average_position cps)) * 200 < epsilon \<and>
          (import_realign_bones = 2 \<or> \<not> is_bone DICT_ARMATURES (parent n_block)) \<longrightarrow>
            res = Inr (Some \<lparr>head = h,
                    tail = (fst h + 5 * scale, fst (snd (average_position cps)), snd (snd (average_position cps))),
                    is_zero_length = True\<rparr>)) \<and>
         (\<forall>p ph pt.
            (cps = [] \<or> abs_component_sum (vec_sub h (average_position cps)) * 200 < epsilon) \<and>
            import_realign_bones \<noteq> 2 \<and>
            parent n_block = Some p \<and> is_bone DICT_ARMATURES (Some p) \<and>
            edit_bones p = Some (ph, pt) \<and>
            epsilon \<le> abs_component_sum (vec_sub h pt) * 200 \<and>
            epsilon \<le> \<bar>component_sum (vec_sub h pt)\<bar> * 200 \<longrightarrow>
            res = Inr (Some \<lparr>head = h,
                    tail = vec_add h (scale_vec (5 * scale) (normalize (vec_sub h pt))),
                    is_zero_length = True\<rparr>)) \<and>
         (\<forall>p ph pt.
            (cps = [] \<or> abs_component_sum (vec_sub h (average_position cps)) * 200 < epsilon) \<and>
            import_realign_bones \<noteq> 2 \<and>
            parent n_block = Some p \<and> is_bone DICT_ARMATURES (Some p) \<and>
            edit_bones p = Some (ph, pt) \<and>
            abs_component_sum (vec_sub h pt) * 200 < epsilon \<longrightarrow>
            res = Inr (Some \<lparr>head = h,
                    tail = vec_add h (scale_vec (5 * scale) (normalize (vec_sub pt ph))),
                    is_zero_length = True\<rparr>)) \<and>
         (\<forall>d. vec_length d \<noteq> 0 \<longrightarrow> vec_length (normalize d) = 1)"
proof -
  note u = import_bone_unfold [OF bone, of import_realign_bones epsilon scale children parent
      import_matrix edit_bones n_armature, folded h_def cps_def res_def]
  obtain hx hy hz where h: "h = (hx, hy, hz)" by (cases h)
  have small: "\<bar>component_sum v\<bar> * 200 < epsilon" if "abs_component_sum v * 200 < epsilon" for v
    using that component_sum_le_abs [of v] by simp
  have z: "cps = [] \<or> \<bar>component_sum (vec_sub h (average_position cps))\<bar> * 200 < epsilon"
    if "cps = [] \<or> abs_component_sum (vec_sub h (average_position cps)) * 200 < epsilon"
    using that small by blast
  have a: "res = Inr (Some pl) \<longrightarrow>
      head pl = h \<and> (\<not> is_zero_length pl \<longrightarrow> cps \<noteq> [] \<and> tail pl = average_position cps)" for pl
    unfolding u by (auto simp: Let_def split: if_splits option.splits)
  have b: "cps \<noteq> [] \<and> epsilon \<le> abs_component_sum (vec_sub h (average_position cps)) * 200 \<and>
          epsilon \<le> \<bar>component_sum (vec_sub h (average_position cps))\<bar> * 200 \<longrightarrow>
      res = Inr (Some \<lparr>head = h, tail = average_position cps, is_zero_length = False\<rparr>)"
    unfolding u by (simp add: Let_def)
  have c: "cps = [] \<and> (import_realign_bones = 2 \<or> \<not> is_bone DICT_ARMATURES (parent n_block)) \<longrightarrow>
      res = Inr (Some \<lparr>head = h, tail = vec_add h (5 * scale, 0, 0), is_zero_length = True\<rparr>)"
    unfolding u by (auto simp: Let_def h vec_add_def)
  have c': "cps \<noteq> [] \<and> abs_component_sum (vec_sub h (average_position cps)) * 200 < epsilon \<and>
          (import_realign_bones = 2 \<or> \<not> is_bone DICT_ARMATURES (parent n_block)) \<longrightarrow>
      res = Inr (Some \<lparr>head = h,
              tail = (fst h + 5 * scale, fst (snd (average_position cps)), snd (snd (average_position cps))),
              is_zero_length = True\<rparr>)"
    unfolding u using small by (auto simp: Let_def)
  have d: "(cps = [] \<or> abs_component_sum (vec_sub h (average_position cps)) * 200 < epsilon) \<and>
            import_realign_bones \<noteq> 2 \<and>
            parent n_block = Some p \<and> is_bone DICT_ARMATURES (Some p) \<and>
            edit_bones p = Some (ph, pt) \<and>
            epsilon \<le> abs_component_sum (vec_sub h pt) * 200 \<and>
            epsilon \<le> \<bar>component_sum (vec_sub h pt)\<bar> * 200 \<longrightarrow>
            res = Inr (Some \<lparr>head = h,
                    tail = vec_add h (scale_vec (5 * scale) (normalize (vec_sub h pt))),
                    is_zero_length = True\<rparr>)" for p ph pt
    unfolding u using z by (auto simp: Let_def)
  have e: "(cps = [] \<or> abs_component_sum (vec_sub h (average_position cps)) * 200 < epsilon) \<and>
            import_realign_bones \<noteq> 2 \<and>
            parent n_block = Some p \<and> is_bone DICT_ARMATURES (Some p) \<and>
            edit_bones p = Some (ph, pt) \<and>
            abs_component_sum (vec_sub h pt) * 200 < epsilon \<longrightarrow>
            res = Inr (Some \<lparr>head = h,
                    tail = vec_add h (scale_vec (5 * scale) (normalize (vec_sub pt ph))),
                    is_zero_length = True\<rparr>)" for p ph pt
    unfolding u using z small [of "vec_sub h pt"] by (auto simp: Let_def)
  have f: "vec_length d \<noteq> 0 \<longrightarrow> vec_length (normalize d) = 1" for d
    by (rule impI) (rule normalize_unit)
  show ?thesis
    by (intro conjI allI) (rule a, rule b, rule c, rule c', rule d, rule e, rule f)
qed


theorem import_bone_head_tail_witness:
  "is_bone [(0::nat, [Some 1, Some 2, Some 3])] (Some 1) \<and>
   bone_position (\<lambda>b _. ((1, 0, 0, if b = 2 then 1 else if b = 3 then 3 else 0),
        (0, 1, 0, 0), (0, 0, 1, 0), (0, 0, 0, 1))) 0 (1::nat) = (0, 0, 0) \<and>
   child_bone_positions [(0::nat, [Some 1, Some 2, Some 3])] (\<lambda>b. if b = 1 then [2, 3] else [])
     (\<lambda>b _. ((1, 0, 0, if b = 2 then 1 else if b = 3 then 3 else 0),
        (0, 1, 0, 0), (0, 0, 1, 0), (0, 0, 0, 1))) 0 1 = [(1, 0, 0), (3, 0, 0)] \<and>
   import_bone 0 (1/10000) 1 [(0::nat, [Some 1, Some 2, Some 3])] (\<lambda>b. if b = 1 then [2, 3] else [])
     (\<lambda>b. if b = 0 then None else if b = 1 then Some 0 else Some 1)
     (\<lambda>b _. ((1, 0, 0, if b = 2 then 1 else if b = 3 then 3 else 0),
        (0, 1, 0, 0), (0, 0, 1, 0), (0, 0, 0, 1)))
     (\<lambda>_. None) 1 0 = Inr (Some \<lparr>head = (0, 0, 0), tail = (2, 0, 0), is_zero_length = False\<rparr>) \<and>
   child_bone_positions [(0::nat, [Some 1, Some 2])] (\<lambda>b. if b = 1 then [2] else [])
     (\<lambda>b _. ((1, 0, 0, if b = 2 then 1/1000000000 else 0),
        (0, 1, 0, 0), (0, 0, 1, 0), (0, 0, 0, 1))) 0 1 = [(1/1000000000, 0, 0)] \<and>
   import_bone 0 (1/10000) 1 [(0::nat, [Some 1, Some 2])] (\<lambda>b. if b = 1 then [2] else [])
     (\<lambda>b. if b = 0 then None else if b = 1 then Some 0 else Some 1)
     (\<lambda>b _. ((1, 0, 0, if b = 2 then 1/1000000000 else 0),
        (0, 1, 0, 0), (0, 0, 1, 0), (0, 0, 0, 1)))
     (\<lambda>_. None) 1 0 = Inr (Some \<lparr>head = (0, 0, 0), tail = (5, 0, 0), is_zero_length = True\<rparr>)"
proof -
  let ?arms = "[(0::nat, [Some (1::nat), Some 2, Some 3])]"
  let ?ch = "\<lambda>b::nat. if b = 1 then [2, 3::nat] else []"
  let ?par = "\<lambda>b::nat. if b = 0 then None else if b = 1 then Some (0::nat) else Some 1"
  let ?im = "\<lambda>(b::nat) (_::nat option). ((1, 0, 0, if b = 2 then 1 else if b = 3 then 3 else 0),
        (0, 1, 0, 0), (0, 0, 1, 0), (0, 0, 0, 1::real))"
  let ?arms2 = "[(0::nat, [Some (1::nat), Some 2])]"
  let ?ch2 = "\<lambda>b::nat. if b = 1 then [2::nat] else []"
  let ?im2 = "\<lambda>(b::nat) (_::nat option). ((1, 0, 0, if b = 2 then 1/1000000000 else 0),
        (0, 1, 0, 0), (0, 0, 1, 0), (0, 0, 0, 1::real))"
  have b: "is_bone ?arms (Some 1)" and b2: "is_bone ?arms2 (Some 1)"
    by (simp_all add: is_bone_def)
  have nb2: "\<not> is_bone ?arms2 (?par 1)"
    by (simp add: is_bone_def)
  have h: "bone_position ?im 0 1 = (0, 0, 0)" and h2: "bone_position ?im2 0 1 = (0, 0, 0)"
    by (simp_all add: bone_position_def translation_column_def)
  have c: "child_bone_positions ?arms ?ch ?im 0 1 = [(1, 0, 0), (3, 0, 0)]"
    by (simp add: child_bone_positions_def is_bone_def bone_position_def translation_column_def)
  have c2: "child_bone_positions ?arms2 ?ch2 ?im2 0 1 = [(1/1000000000, 0, 0)]"
    by (simp add: child_bone_positions_def is_bone_def bone_position_def translation_column_def)
  have a: "average_position [(1, 0, 0), (3, 0, 0)] = (2, 0, 0)"
    and a2: "average_position [(1/1000000000, 0, 0)] = (1/1000000000, 0, 0)"
    by (simp_all add: average_position_def sum_vec_def vec_add_def)
  note t = import_bone_head_tail [OF b, where epsilon = "1/10000" and children = ?ch
      and import_matrix = ?im and n_armature = 0 and import_realign_bones = 0 and parent = ?par
      and scale = 1 and edit_bones = "\<lambda>_. None"]
  note k = conjunct1 [OF conjunct2 [OF t]]
  have "import_bone 0 (1/10000) 1 ?arms ?ch ?par ?im (\<lambda>_. None) 1 0 =
      Inr (Some \<lparr>head = bone_position ?im 0 1,
         tail = average_position (child_bone_positions ?arms ?ch ?im 0 1), is_zero_length = False\<rparr>)"
    by (rule mp [OF k])
      (unfold h c a, simp add: component_sum_def abs_component_sum_def vec_sub_def)
  then have r: "import_bone 0 (1/10000) 1 ?arms ?ch ?par ?im (\<lambda>_. None) 1 0 =
      Inr (Some \<lparr>head = (0, 0, 0), tail = (2, 0, 0), is_zero_length = False\<rparr>)"
    by (simp only: h c a)
  note t2 = import_bone_head_tail [OF b2, where epsilon = "1/10000" and children = ?ch2
      and import_matrix = ?im2 and n_armature = 0 and import_realign_bones = 0 and parent = ?par
      and scale = 1 and edit_bones = "\<lambda>_. None"]
  note k2 = conjunct1 [OF conjunct2 [OF conjunct2 [OF conjunct2 [OF t2]]]]
  have "import_bone 0 (1/10000) 1 ?arms2 ?ch2 ?par ?im2 (\<lambda>_. None) 1 0 =
      Inr (Some \<lparr>head = bone_position ?im2 0 1,
         tail = (fst (bone_position ?im2 0 1) + 5 * 1,
                 fst (snd (average_position (child_bone_positions ?arms2 ?ch2 ?im2 0 1))),
                 snd (snd (average_position (child_bone_positions ?arms2 ?ch2 ?im2 0 1)))),
         is_zero_length = True\<rparr>)"
    by (rule mp [OF k2])
      (unfold h2 c2 a2, insert nb2, simp add: abs_component_sum_def vec_sub_def)
  then have r2: "import_bone 0 (1/10000) 1 ?arms2 ?ch2 ?par ?im2 (\<lambda>_. None) 1 0 =
      Inr (Some \<lparr>head = (0, 0, 0), tail = (5, 0, 0), is_zero_length = True\<rparr>)"
    unfolding h2 c2 a2 by simp
  from b h c r c2 r2 show ?thesis by (intro conjI)
qed

text \<open>
  Two bone children at (1,0,0) and (-1,0,0) around a head at the origin: no child
  coincides with the head, yet the average does, the bone is classified zero-length and
  receives the nub (5,0,0). One bone child at (1,-1,0): the components of head minus tail
  cancel in the sum the code tests, the bone is classified zero-length, and only the x
  component of the tail is replaced.
\<close>

theorem import_bone_zero_length_counterexample:
  "child_bone_positions [(0::nat, [Some 1, Some 2, Some 3])] (\<lambda>b. if b = 1 then [2, 3] else [])
     (\<lambda>b _. ((1, 0, 0, if b = 2 then 1 else if b = 3 then - 1 else 0),
        (0, 1, 0, 0), (0, 0, 1, 0), (0, 0, 0, 1))) 0 1 = [(1, 0, 0), (- 1, 0, 0)] \<and>
   import_bone 0 (1/10000) 1 [(0::nat, [Some 1, Some 2, Some 3])] (\<lambda>b. if b = 1 then [2, 3] else [])
     (\<lambda>b. if b = 0 then None else if b = 1 then Some 0 else Some 1)
     (\<lambda>b _. ((1, 0, 0, if b = 2 then 1 else if b = 3 then - 1 else 0),
        (0, 1, 0, 0), (0, 0, 1, 0), (0, 0, 0, 1)))
     (\<lambda>_. None) 1 0 = Inr (Some \<lparr>head = (0, 0, 0), tail = (5, 0, 0), is_zero_length = True\<rparr>) \<and>
   child_bone_positions [(0::nat, [Some 1, Some 2])] (\<lambda>b. if b = 1 then [2] else [])
     (\<lambda>b _. ((1, 0, 0, if b = 2 then 1 else 0),
        (0, 1, 0, if b = 2 then - 1 else 0), (0, 0, 1, 0), (0, 0, 0, 1))) 0 1 = [(1, - 1, 0)] \<and>
   import_bone 0 (1/10000) 1 [(0::nat, [Some 1, Some 2])] (\<lambda>b. if b = 1 then [2] else [])
     (\<lambda>b. if b = 0 then None else if b = 1 then Some 0 else Some 1)
     (\<lambda>b _. ((1, 0, 0, if b = 2 then 1 else 0),
        (0, 1, 0, if b = 2 then - 1 else 0), (0, 0, 1, 0), (0, 0, 0, 1)))
     (\<lambda>_. None) 1 0 = Inr (Some \<lparr>head = (0, 0, 0), tail = (5, - 1, 0), is_zero_length = True\<rparr>)"
proof -
  let ?arms = "[(0::nat, [Some (1::nat), Some 2, Some 3])]"
  let ?ch = "\<lambda>b::nat. if b = 1 then [2, 3::nat] else []"
  let ?par = "\<lambda>b::nat. if b = 0 then None else if b = 1 then Some (0::nat) else Some 1"
  let ?im = "\<lambda>(b::nat) (_::nat option). ((1, 0, 0, if b = 2 then 1 else if b = 3 then - 1 else 0),
        (0, 1, 0, 0), (0, 0, 1, 0), (0, 0, 0, 1::real))"
  let ?arms2 = "[(0::nat, [Some (1::nat), Some 2])]"
  let ?ch2 = "\<lambda>b::nat. if b = 1 then [2::nat] else []"
  let ?im2 = "\<lambda>(b::nat) (_::nat option). ((1, 0, 0, if b = 2 then 1 else 0),
        (0, 1, 0, if b = 2 then - 1 else 0), (0, 0, 1, 0), (0, 0, 0, 1::real))"
  have b: "is_bone ?arms (Some 1)" "is_bone ?arms2 (Some 1)"
    by (simp_all add: is_bone_def)
  have nb: "\<not> is_bone ?arms (?par 1)" "\<not> is_bone ?arms2 (?par 1)"
    by (simp_all add: is_bone_def)
  have h: "bone_position ?im 0 1 = (0, 0, 0)" "bone_position ?im2 0 1 = (0, 0, 0)"
    by (simp_all add: bone_position_def translation_column_def)
  have c: "child_bone_positions ?arms ?ch ?im 0 1 = [(1, 0, 0), (- 1, 0, 0)]"
    by (simp add: child_bone_positions_def is_bone_def bone_position_def translation_column_def)
  have c2: "child_bone_positions ?arms2 ?ch2 ?im2 0 1 = [(1, - 1, 0)]"
    by (simp add: child_bone_positions_def is_bone_def bone_position_def translation_column_def)
  have a: "average_position [(1, 0, 0), (- 1, 0, 0)] = (0, 0, 0)"
    "average_position [(1, - 1, 0)] = (1, - 1, 0)"
    by (simp_all add: average_position_def sum_vec_def vec_add_def)
  have r: "import_bone 0 (1/10000) 1 ?arms ?ch ?par ?im (\<lambda>_. None) 1 0 =
      Inr (Some \<lparr>head = (0, 0, 0), tail = (5, 0, 0), is_zero_length = True\<rparr>)"
    unfolding import_bone_unfold [OF b(1)] Let_def h c a
    using nb(1) by (simp add: component_sum_def vec_sub_def)
  have r2: "import_bone 0 (1/10000) 1 ?arms2 ?ch2 ?par ?im2 (\<lambda>_. None) 1 0 =
      Inr (Some \<lparr>head = (0, 0, 0), tail = (5, - 1, 0), is_zero_length = True\<rparr>)"
    unfolding import_bone_unfold [OF b(2)] Let_def h c2 a
    using nb(2) by (simp add: component_sum_def vec_sub_def)
  from c r c2 r2 show ?thesis by (intro conjI)
qed

section \<open>Scale, rotation and translation of a matrix: results\<close>

text \<open>
  With non-negative scale components nothing is raised, whether or not they are equal:
  the warning is logged when two neighbouring components differ by epsilon or more, and
  the result is a triple with one scalar scale.
\<close>

lemma decompose_srt_non_negative:
  assumes "decompose matrix = (trans_vec, rot_quat, (s0, s1, s2))"
    and "0 \<le> s0" and "0 \<le> s1" and "0 \<le> s2"
  shows "decompose_srt decompose to_matrix epsilon matrix =
     Inr (if epsilon \<le> \<bar>s0 - s1\<bar> \<or> epsilon \<le> \<bar>s1 - s2\<bar>
          then [''Corrupt rotation matrix in nif: geometry errors may result.''] else [],
          (if determinant (to_matrix rot_quat) < 0 then - sqrt s0 else sqrt s0,
           mat_scale (to_matrix rot_quat)
             (if determinant (to_matrix rot_quat) < 0 then - sqrt s0 else sqrt s0),
           trans_vec))"
  using assms by (simp add: decompose_srt_def py_pow_half_def Let_def)

text \<open>
  C9. \<open>decompose_srt\<close> is meant to return for every matrix, mirrored ones included (it
  goes on to fix the sign of the scale). For the mirrored, non-uniformly scaled matrix
  \<open>diag (-1, 2, 3)\<close> the decomposition has the rotation of a half turn about X and the
  scale components \<open>(-1, -2, -3)\<close>, and for the mirrored matrix \<open>diag (-1, -1, -1)\<close> the
  identity rotation and \<open>(-1, -1, -1)\<close>: \<^verbatim>\<open>scale_vec[0] ** 0.5\<close> is then not a float and
  building \<^verbatim>\<open>b_scale\<close> raises, with or without a difference between the components.
  For the scale components \<open>(4, 9, 9)\<close> the function warns and returns the scale 2.
\<close>

theorem decompose_srt_mirrored_raises:
  "decompose_srt (\<lambda>_. ((0, 0, 0), (0, 1, 0, 0), (- 1, - 2, - 3))) quat_to_mat3 (1/10000)
     ((- 1, 0, 0, 0), (0, 2, 0, 0), (0, 0, 3, 0), (0, 0, 0, 1)) = Inl TypeError \<and>
   decompose_srt (\<lambda>_. ((0, 0, 0), (1, 0, 0, 0), (- 1, - 1, - 1))) quat_to_mat3 (1/10000)
     ((- 1, 0, 0, 0), (0, - 1, 0, 0), (0, 0, - 1, 0), (0, 0, 0, 1)) = Inl TypeError \<and>
   decompose_srt (\<lambda>_. ((1, 2, 3), (1, 0, 0, 0), (4, 9, 9))) quat_to_mat3 (1/10000)
     ((4, 0, 0, 1), (0, 9, 0, 2), (0, 0, 9, 3), (0, 0, 0, 1)) =
     Inr ([''Corrupt rotation matrix in nif: geometry errors may result.''],
          (2, ((2, 0, 0), (0, 2, 0), (0, 0, 2)), (1, 2, 3)))"
proof -
  have a: "decompose_srt (\<lambda>_. ((0, 0, 0), (0, 1, 0, 0), (- 1, - 2, - 3))) quat_to_mat3 (1/10000)
     ((- 1, 0, 0, 0), (0, 2, 0, 0), (0, 0, 3, 0), (0, 0, 0, 1)) = Inl TypeError"
    by (simp add: decompose_srt_def py_pow_half_def)
  have b: "decompose_srt (\<lambda>_. ((0, 0, 0), (1, 0, 0, 0), (- 1, - 1, - 1))) quat_to_mat3 (1/10000)
     ((- 1, 0, 0, 0), (0, - 1, 0, 0), (0, 0, - 1, 0), (0, 0, 0, 1)) = Inl TypeError"
    by (simp add: decompose_srt_def py_pow_half_def)
  have m: "quat_to_mat3 (1, 0, 0, 0) = ((1, 0, 0), (0, 1, 0), (0, 0, 1))"
    by (simp add: quat_to_mat3_def)
  have d: "determinant ((1, 0, 0), (0, 1, 0), (0, 0, 1)) = 1"
    by (simp add: determinant_def)
  have c: "decompose_srt (\<lambda>_. ((1, 2, 3), (1, 0, 0, 0), (4, 9, 9))) quat_to_mat3 (1/10000)
     ((4, 0, 0, 1), (0, 9, 0, 2), (0, 0, 9, 3), (0, 0, 0, 1)) =
     Inr ([''Corrupt rotation matrix in nif: geometry errors may result.''],
          (2, ((2, 0, 0), (0, 2, 0), (0, 0, 2)), (1, 2, 3)))"
    by (simp add: decompose_srt_def py_pow_half_def m d) (simp add: mat_scale_def)
  from a b c show ?thesis by (intro conjI)
qed

section \<open>Armature animation: results\<close>

text \<open>A loop over scale keys or over Euler keys returns only when it has no key.\<close>

lemma scale_loop_success:
  "scale_keys_loop env b keys st = Inr st' \<Longrightarrow> keys = [] \<and> st' = st"
  by (cases keys) (auto simp: mathutils_Vector3_def Let_def split: if_splits)

lemma euler_loop_success:
  "euler_keys_loop env b keys st = Inr st' \<Longrightarrow> keys = [] \<and> st' = st"
  by (cases keys) (auto simp: mathutils_Euler3_def Let_def split: option.splits)

lemma scale_phase_success:
  "scale_phase env b kfd = Inr st \<Longrightarrow> scales_keys kfd = [] \<and> st = initial_state"
  unfolding scale_phase_def
  by (auto split: if_splits dest: scale_loop_success)

lemma cross_one_left: "cross (1, 0, 0, 0) q = q"
  by (cases q) (simp add: cross_def)

lemma cross_one_right: "cross q (1, 0, 0, 0) = q"
  by (cases q) (simp add: cross_def)

lemma rotation_identity:
  "quaternion_rotation identity_bind q = q"
  "bspline_rotation identity_bind q = q"
  "euler_rotation identity_bind q = q"
  by (simp_all add: quaternion_rotation_def bspline_rotation_def euler_rotation_def identity_bind_def
      cross_one_left cross_one_right)

lemma location_formula_identity: "location_formula identity_bind rot sizeVal v = v"
proof -
  obtain a b c d e f g h i where r: "rot = ((a, b, c), (d, e, f), (g, h, i))"
    by (metis prod_cases3)
  obtain x y z where v: "v = (x, y, z)" by (cases v)
  show ?thesis
    by (simp add: location_formula_def identity_bind_def IDENTITY33_def r v mat_vec_def mat_scale_def
        mat_mul_def vec_add_def vec_sub_def dot_def)
qed

lemma quaternion_loop_identity:
  "\<exists>st'. quaternion_keys_loop env identity_bind keys st = Inr st' \<and>
     keyframes st' = keyframes st @
       map (\<lambda>(t, q). Keyframe ''rotation_quaternion'' (frame_of (armature_fps env) t) (RotationValue q)) keys"
proof (induction keys arbitrary: st)
  case Nil
  then show ?case by simp
next
  case (Cons k keys)
  obtain t q where k: "k = (t, q)" by (cases k)
  let ?st = "st\<lparr>keyframes := keyframes st @ [Keyframe ''rotation_quaternion'' (frame_of (armature_fps env) t) (RotationValue q)],
       rot_keys_dict := (rot_keys_dict st)(frame_of (armature_fps env) t \<mapsto> q)\<rparr>"
  from Cons.IH [of ?st] show ?case
    by (simp add: k rotation_identity Let_def)
qed

lemma translation_loop_identity:
  "\<exists>st'. translation_keys_loop env identity_bind keys st = Inr st' \<and>
     keyframes st' = keyframes st @
       map (\<lambda>(t, v). Keyframe ''location'' (frame_of (armature_fps env) t) (LocationValue v)) keys"
proof (induction keys arbitrary: st)
  case Nil
  then show ?case by simp
next
  case (Cons k keys)
  obtain t v where k: "k = (t, v)" by (cases k)
  have tk: "translation_key env identity_bind st f v = Inr v" for f
    by (simp add: translation_key_def location_formula_identity Let_def) (simp add: identity_bind_def)
  let ?st = "st\<lparr>keyframes := keyframes st @ [Keyframe ''location'' (frame_of (armature_fps env) t) (LocationValue v)]\<rparr>"
  from Cons.IH [of ?st] show ?case
    by (simp add: k tk Let_def)
qed

text \<open>
  With the identity bind pose and the identity extra matrix, the import of a bone that
  has no scale key and whose rotation keys are quaternion keys inserts the raw key
  values: a rotation key \<open>q\<close> gives the rotation \<open>q\<close> and a translation key \<open>t\<close> the
  location \<open>t\<close>, each at the frame of its time, the rotations first.
\<close>

lemma identity_retarget_without_scale:
  assumes "scales_keys kfd = []" and "rotation_type kfd \<noteq> 4"
  shows "import_keyframe_data env identity_bind kfd =
     Inr (map (\<lambda>(t, q). Keyframe ''rotation_quaternion'' (frame_of (armature_fps env) t) (RotationValue q))
            (quaternion_keys kfd) @
          map (\<lambda>(t, v). Keyframe ''location'' (frame_of (armature_fps env) t) (LocationValue v))
            (translations_keys kfd))"
proof -
  have p1: "scale_phase env identity_bind kfd = Inr initial_state"
    using assms(1) by (simp add: scale_phase_def)
  obtain st2 where s2: "quaternion_keys_loop env identity_bind (quaternion_keys kfd) initial_state = Inr st2"
    and k2: "keyframes st2 =
       map (\<lambda>(t, q). Keyframe ''rotation_quaternion'' (frame_of (armature_fps env) t) (RotationValue q))
         (quaternion_keys kfd)"
    using quaternion_loop_identity [of env "quaternion_keys kfd" initial_state]
    by (auto simp: initial_state_def)
  have p2: "rotation_phase env identity_bind kfd initial_state = Inr st2"
    using s2 assms(2) by (cases "quaternion_keys kfd") (simp_all add: rotation_phase_def)
  obtain st3 where s3: "translation_keys_loop env identity_bind (translations_keys kfd) st2 = Inr st3"
    and k3: "keyframes st3 = keyframes st2 @
       map (\<lambda>(t, v). Keyframe ''location'' (frame_of (armature_fps env) t) (LocationValue v))
         (translations_keys kfd)"
    using translation_loop_identity [of env "translations_keys kfd" st2] by blast
  have p3: "translation_phase env identity_bind kfd st2 = Inr st3"
    using s3 by (cases "translations_keys kfd") (simp_all add: translation_phase_def)
  show ?thesis
    by (simp add: import_keyframe_data_def bind_result_def p1 p2 p3 k2 k3)
qed

text \<open>
  C7. With the identity bind pose and the identity extra matrix a rotation key \<open>q\<close> gives
  the rotation \<open>q\<close> and a translation key \<open>t\<close> the location \<open>t\<close>, as long as the bone has
  no scale key. The scale of a key \<open>s\<close> is computed as \<open>s / 1\<close>, but the vector assigned to
  the pose bone is built by \<^verbatim>\<open>mathutils.Vector(size, size, size)\<close>, which raises: with one
  scale key the import of the bone fails before any insertion. Euler keys fail as well,
  on \<^verbatim>\<open>self.properties\<close> and, had the object that attribute, on
  \<^verbatim>\<open>mathutils.Euler(x, y, z)\<close>.
\<close>

theorem identity_scale_key_raises:
  "import_keyframe_data example_env identity_bind
     \<lparr>scales_keys = [(0, 2)], rotation_type = 1, xyz_rotations = ([], [], []),
      quaternion_keys = [(1, (0, 1, 0, 0))], translations_keys = [(1/2, (1, 2, 3))]\<rparr> =
   Inl TypeError \<and>
   import_keyframe_data example_env identity_bind
     \<lparr>scales_keys = [], rotation_type = 1, xyz_rotations = ([], [], []),
      quaternion_keys = [(1, (0, 1, 0, 0))], translations_keys = [(1/2, (1, 2, 3))]\<rparr> =
   Inr [Keyframe ''rotation_quaternion'' 31 (RotationValue (0, 1, 0, 0)),
        Keyframe ''location'' 16 (LocationValue (1, 2, 3))] \<and>
   import_keyframe_data example_env identity_bind
     \<lparr>scales_keys = [], rotation_type = 4, xyz_rotations = ([(1, pi)], [(1, 0)], [(1, 0)]),
      quaternion_keys = [], translations_keys = [(1/2, (1, 2, 3))]\<rparr> =
   Inl AttributeError \<and>
   import_keyframe_data (example_env\<lparr>properties_epsilon := Some (1/10000)\<rparr>) identity_bind
     \<lparr>scales_keys = [], rotation_type = 4, xyz_rotations = ([(1, pi)], [(1, 0)], [(1, 0)]),
      quaternion_keys = [], translations_keys = [(1/2, (1, 2, 3))]\<rparr> =
   Inl TypeError"
proof -
  have a: "import_keyframe_data example_env identity_bind
     \<lparr>scales_keys = [(0, 2)], rotation_type = 1, xyz_rotations = ([], [], []),
      quaternion_keys = [(1, (0, 1, 0, 0))], translations_keys = [(1/2, (1, 2, 3))]\<rparr> =
     Inl TypeError"
    by (simp add: import_keyframe_data_def bind_result_def scale_phase_def identity_bind_def
        mathutils_Vector3_def Let_def)
  have b: "import_keyframe_data example_env identity_bind
     \<lparr>scales_keys = [], rotation_type = 1, xyz_rotations = ([], [], []),
      quaternion_keys = [(1, (0, 1, 0, 0))], translations_keys = [(1/2, (1, 2, 3))]\<rparr> =
     Inr [Keyframe ''rotation_quaternion'' 31 (RotationValue (0, 1, 0, 0)),
          Keyframe ''location'' 16 (LocationValue (1, 2, 3))]"
    using identity_retarget_without_scale [of "\<lparr>scales_keys = [], rotation_type = 1,
      xyz_rotations = ([], [], []), quaternion_keys = [(1, (0, 1, 0, 0))],
      translations_keys = [(1/2, (1, 2, 3))]\<rparr>" example_env]
    by (simp add: example_env_def frame_of_def py_int_def)
  have c: "import_keyframe_data example_env identity_bind
     \<lparr>scales_keys = [], rotation_type = 4, xyz_rotations = ([(1, pi)], [(1, 0)], [(1, 0)]),
      quaternion_keys = [], translations_keys = [(1/2, (1, 2, 3))]\<rparr> =
     Inl AttributeError"
    by (simp add: import_keyframe_data_def bind_result_def scale_phase_def rotation_phase_def
        example_env_def)
  have d: "import_keyframe_data (example_env\<lparr>properties_epsilon := Some (1/10000)\<rparr>) identity_bind
     \<lparr>scales_keys = [], rotation_type = 4, xyz_rotations = ([(1, pi)], [(1, 0)], [(1, 0)]),
      quaternion_keys = [], translations_keys = [(1/2, (1, 2, 3))]\<rparr> =
     Inl TypeError"
    by (simp add: import_keyframe_data_def bind_result_def scale_phase_def rotation_phase_def
        example_env_def mathutils_Euler3_def Let_def)
  from a b c d show ?thesis by (intro conjI)
qed

lemma samples_recorded_initial: "samples_recorded initial_state"
  by (simp add: samples_recorded_def initial_state_def)

lemma samples_recorded_scale:
  assumes "samples_recorded st"
  shows "samples_recorded (st\<lparr>keyframes := keyframes st @ [Keyframe p f (ScaleValue s)],
            scale_keys_dict := (scale_keys_dict st)(f \<mapsto> s)\<rparr>)"
  using assms unfolding samples_recorded_def
  by (auto split: if_splits)

lemma samples_recorded_rot:
  assumes "samples_recorded st"
  shows "samples_recorded (st\<lparr>keyframes := keyframes st @ [Keyframe p f (RotationValue q)],
            rot_keys_dict := (rot_keys_dict st)(f \<mapsto> q)\<rparr>)"
  using assms unfolding samples_recorded_def
  by (auto split: if_splits)

lemma quaternion_loop_recorded:
  "samples_recorded st \<Longrightarrow> quaternion_keys_loop env b keys st = Inr st' \<Longrightarrow> samples_recorded st'"
proof (induction keys arbitrary: st)
  case Nil
  then show ?case by simp
next
  case (Cons k keys)
  obtain t q where k: "k = (t, q)" by (cases k)
  let ?st = "st\<lparr>keyframes := keyframes st @
        [Keyframe ''rotation_quaternion'' (frame_of (armature_fps env) t) (RotationValue (quaternion_rotation b q))],
      rot_keys_dict := (rot_keys_dict st)(frame_of (armature_fps env) t \<mapsto> quaternion_rotation b q)\<rparr>"
  have "samples_recorded ?st" by (rule samples_recorded_rot [OF Cons.prems(1)])
  moreover have "quaternion_keys_loop env b keys ?st = Inr st'"
    using Cons.prems(2) by (simp add: k Let_def)
  ultimately show ?case by (rule Cons.IH)
qed


lemma quaternion_loop_scale_dict:
  "quaternion_keys_loop env b keys st = Inr st' \<Longrightarrow> scale_keys_dict st' = scale_keys_dict st"
proof (induction keys arbitrary: st)
  case Nil
  then show ?case by simp
next
  case (Cons k keys)
  obtain t q where k: "k = (t, q)" by (cases k)
  from Cons.prems Cons.IH show ?case
    by (fastforce simp: k Let_def)
qed

lemma rotation_phase_recorded:
  assumes "samples_recorded st" and "rotation_phase env b kfd st = Inr st'"
  shows "samples_recorded st' \<and> scale_keys_dict st' = scale_keys_dict st"
  using assms unfolding rotation_phase_def
  by (auto split: if_splits prod.splits
      dest: euler_loop_success quaternion_loop_recorded quaternion_loop_scale_dict)

lemma translation_loop_keyframes:
  "translation_keys_loop env b keys st = Inr st' \<Longrightarrow>
   keyframes st' = keyframes st @
     map (\<lambda>(time, keyVal).
        Keyframe ''location'' (frame_of (armature_fps env) time)
          (LocationValue (location_formula b
             (rot_at_frame env (rot_keys_dict st) (frame_of (armature_fps env) time))
             (size_at_frame env (scale_keys_dict st) (frame_of (armature_fps env) time)) keyVal))) keys"
proof (induction keys arbitrary: st)
  case Nil
  then show ?case by simp
next
  case (Cons k keys)
  obtain t v where k: "k = (t, v)" by (cases k)
  let ?f = "frame_of (armature_fps env) t"
  let ?loc = "location_formula b (rot_at_frame env (rot_keys_dict st) ?f)
      (size_at_frame env (scale_keys_dict st) ?f) v"
  from Cons.prems have tk: "translation_key env b st ?f v = Inr ?loc"
    by (auto simp: k translation_key_def Let_def split: if_splits sum.splits)
  let ?st = "st\<lparr>keyframes := keyframes st @ [Keyframe ''location'' ?f (LocationValue ?loc)]\<rparr>"
  have "translation_keys_loop env b keys ?st = Inr st'"
    using Cons.prems by (simp add: k tk Let_def)
  from Cons.IH [OF this] show ?case
    by (simp add: k)
qed


lemma translation_loop_dicts:
  "translation_keys_loop env b keys st = Inr st' \<Longrightarrow>
   rot_keys_dict st' = rot_keys_dict st \<and> scale_keys_dict st' = scale_keys_dict st"
proof (induction keys arbitrary: st)
  case Nil
  then show ?case by simp
next
  case (Cons k keys)
  obtain t v where k: "k = (t, v)" by (cases k)
  from Cons.prems Cons.IH show ?case
    by (fastforce simp: k Let_def split: sum.splits)
qed

lemma channel_value_Cons:
  "channel_value (c # cs) P f d = channel_value cs P f (if P c then evaluate c f else d)"
  by (simp add: channel_value_def split: list.splits)

lemma fold_channel_value:
  "fold (\<lambda>fc v. if P fc then evaluate fc f else v) cs d = channel_value cs P f d"
proof (induction cs arbitrary: d)
  case Nil
  then show ?case by (simp add: channel_value_def)
next
  case (Cons c cs)
  then show ?case by (simp add: channel_value_Cons)
qed

lemma fold_slow_quaternion:
  assumes "\<forall>fc \<in> set cs. \<not> py_in ''rotation_quaternion'' (data_path fc) \<longrightarrow>
      \<not> py_in ''rotation_euler'' (data_path fc)"
  shows "fold (slow_rotation_step f) cs ((w, x, y, z), e) =
     ((channel_value cs (\<lambda>fc. py_in ''rotation_quaternion'' (data_path fc) \<and> array_index fc = 0) f w,
       channel_value cs (\<lambda>fc. py_in ''rotation_quaternion'' (data_path fc) \<and> array_index fc = 1) f x,
       channel_value cs (\<lambda>fc. py_in ''rotation_quaternion'' (data_path fc) \<and> array_index fc = 2) f y,
       channel_value cs (\<lambda>fc. py_in ''rotation_quaternion'' (data_path fc) \<and> array_index fc = 3) f z), e)"
  using assms
proof (induction cs arbitrary: w x y z)
  case Nil
  then show ?case by (simp add: channel_value_def)
next
  case (Cons c cs)
  then have rest: "\<forall>fc \<in> set cs. \<not> py_in ''rotation_quaternion'' (data_path fc) \<longrightarrow>
      \<not> py_in ''rotation_euler'' (data_path fc)"
    and hd: "\<not> py_in ''rotation_quaternion'' (data_path c) \<longrightarrow> \<not> py_in ''rotation_euler'' (data_path c)"
    by simp_all
  show ?case
  proof (cases "py_in ''rotation_quaternion'' (data_path c)")
    case True
    then have "slow_rotation_step f c ((w, x, y, z), e) =
        ((if array_index c = 0 then evaluate c f else w,
          if array_index c = 1 then evaluate c f else x,
          if array_index c = 2 then evaluate c f else y,
          if array_index c = 3 then evaluate c f else z), e)"
      by (simp add: slow_rotation_step_def set_quat_component_def)
    then show ?thesis
      using True Cons.IH [OF rest] by (simp add: channel_value_Cons)
  next
    case False
    with hd have "slow_rotation_step f c ((w, x, y, z), e) = ((w, x, y, z), e)"
      by (simp add: slow_rotation_step_def)
    then show ?thesis
      using False Cons.IH [OF rest] by (simp add: channel_value_Cons)
  qed
qed

lemma slow_rotation_quaternion:
  assumes "\<forall>fc \<in> set (action_channels env). \<not> py_in ''rotation_quaternion'' (data_path fc) \<longrightarrow>
      \<not> py_in ''rotation_euler'' (data_path fc)"
  shows "slow_rotation env f = quaternion_to_matrix env
     (channel_value (action_channels env)
        (\<lambda>fc. py_in ''rotation_quaternion'' (data_path fc) \<and> array_index fc = 0) f 1,
      channel_value (action_channels env)
        (\<lambda>fc. py_in ''rotation_quaternion'' (data_path fc) \<and> array_index fc = 1) f 0,
      channel_value (action_channels env)
        (\<lambda>fc. py_in ''rotation_quaternion'' (data_path fc) \<and> array_index fc = 2) f 0,
      channel_value (action_channels env)
        (\<lambda>fc. py_in ''rotation_quaternion'' (data_path fc) \<and> array_index fc = 3) f 0)"
  by (simp add: slow_rotation_def fold_slow_quaternion [OF assms])

lemma slow_rotation_euler:
  assumes ch: "action_channels env = pre @ c # post"
    and c: "\<not> py_in ''rotation_quaternion'' (data_path c)" "py_in ''rotation_euler'' (data_path c)"
    and post: "\<forall>fc \<in> set post. \<not> py_in ''rotation_quaternion'' (data_path fc) \<longrightarrow>
      \<not> py_in ''rotation_euler'' (data_path fc)"
  shows "slow_rotation env f = quaternion_to_matrix env (euler_to_quaternion env
     (if array_index c = 0 then evaluate c f else 0,
      if array_index c = 1 then evaluate c f else 0,
      if array_index c = 2 then evaluate c f else 0))"
proof -
  let ?e = "(if array_index c = 0 then evaluate c f else 0,
      if array_index c = 1 then evaluate c f else 0,
      if array_index c = 2 then evaluate c f else (0::real))"
  obtain q1 e1 where p: "fold (slow_rotation_step f) pre ((1, 0, 0, 0), None) = (q1, e1)"
    by (cases "fold (slow_rotation_step f) pre ((1, 0, 0, 0), None)")
  have s: "slow_rotation_step f c (q1, e1) = (q1, Some ?e)"
    using c by (simp add: slow_rotation_step_def set_euler_component_def)
  obtain w x y z where q1: "q1 = (w, x, y, z)" by (cases q1)
  have "snd (fold (slow_rotation_step f) post (q1, Some ?e)) = Some ?e"
    unfolding q1 by (simp add: fold_slow_quaternion [OF post])
  then obtain q2 where "fold (slow_rotation_step f) post (q1, Some ?e) = (q2, Some ?e)"
    by (cases "fold (slow_rotation_step f) post (q1, Some ?e)") simp
  then have "fold (slow_rotation_step f) (action_channels env) ((1, 0, 0, 0), None) = (q2, Some ?e)"
    by (simp add: ch p s)
  then show ?thesis
    by (simp add: slow_rotation_def)
qed

lemma location_formula_components:
  "location_formula b ((r00, r01, r02), (r10, r11, r12), (r20, r21, r22)) s (tx, ty, tz) =
     (case (niBone_bind_rot_inv b, niBone_bind_trans b, extra_matrix_rot_inv b, extra_matrix_trans b) of
        (((b00, b01, b02), (b10, b11, b12), (b20, b21, b22)), (bx, by, bz),
         ((x00, x01, x02), (x10, x11, x12), (x20, x21, x22)), (ex, ey, ez)) \<Rightarrow>
          let lx = (b00 * (tx - bx) + b01 * (ty - by) + b02 * (tz - bz)) / niBone_bind_scale b;
              ly = (b10 * (tx - bx) + b11 * (ty - by) + b12 * (tz - bz)) / niBone_bind_scale b;
              lz = (b20 * (tx - bx) + b21 * (ty - by) + b22 * (tz - bz)) / niBone_bind_scale b;
              ux = s * (r00 * ex + r01 * ey + r02 * ez) + lx - ex;
              uy = s * (r10 * ex + r11 * ey + r12 * ez) + ly - ey;
              uz = s * (r20 * ex + r21 * ey + r22 * ez) + lz - ez
          in ((x00 * ux + x01 * uy + x02 * uz) / extra_matrix_scale b,
              (x10 * ux + x11 * uy + x12 * uz) / extra_matrix_scale b,
              (x20 * ux + x21 * uy + x22 * uz) / extra_matrix_scale b))"
proof -
  obtain b00 b01 b02 b10 b11 b12 b20 b21 b22 where br:
    "niBone_bind_rot_inv b = ((b00, b01, b02), (b10, b11, b12), (b20, b21, b22))"
    by (metis prod_cases3)
  obtain x00 x01 x02 x10 x11 x12 x20 x21 x22 where xr:
    "extra_matrix_rot_inv b = ((x00, x01, x02), (x10, x11, x12), (x20, x21, x22))"
    by (metis prod_cases3)
  obtain bx "by" bz where bt: "niBone_bind_trans b = (bx, by, bz)"
    by (cases "niBone_bind_trans b")
  obtain ex ey ez where et: "extra_matrix_trans b = (ex, ey, ez)"
    by (cases "extra_matrix_trans b")
  show ?thesis
    unfolding location_formula_def br xr bt et
    by (simp add: mat_vec_def mat_scale_def mat_mul_def vec_add_def vec_sub_def dot_def Let_def
        divide_inverse algebra_simps)
qed


text \<open>
  C4. When the import of a bone's keyframe data returns, its insertions are those of the
  rotation keys followed by one location per translation key (it has no scale key, since
  a scale key raises), so that every rotation and scale sample exists before the first
  translation is computed; no location precedes, the rotation dictionary has an entry
  at the frame of every inserted rotation, and every entry is the value of an insertion
  at its frame. The translation loop, on whatever dictionaries it finds, inserts for each
  key the location of the translation formula at the rotation matrix and the scale of
  the key's own frame and leaves the dictionaries as they are. The rotation at a frame is
  the matrix of the dictionary's entry when there is one, the identity matrix when the
  dictionary is empty, and otherwise the matrix of the quaternion read from the bone's
  channels at that frame, each component from the last rotation channel of its index and
  from (1,0,0,0) when there is none, or of the Euler angles of the last Euler channel.
  The scale at a frame is the dictionary's entry when there is one, 1 when the dictionary
  is empty, and otherwise the value of the last scale channel at the frame, or 1 without
  such a channel. The translation formula is written out in components:
  \<open>X\<^sup>-\<^sup>1 / S\<^sub>X * (R * s * T\<^sub>X + B\<^sup>-\<^sup>1 / S\<^sub>B * (t - T\<^sub>B) - T\<^sub>X)\<close>.
\<close>

theorem translation_after_rotation_and_scale:
  "(import_keyframe_data env b kfd = Inr kfs \<longrightarrow>
      (\<exists>st2. scales_keys kfd = [] \<and> rotation_phase env b kfd initial_state = Inr st2 \<and>
        scale_keys_dict st2 = Map.empty \<and>
        kfs = keyframes st2 @
          map (\<lambda>(time, keyVal).
          Keyframe ''location'' (frame_of (armature_fps env) time)
            (LocationValue (location_formula b
               (rot_at_frame env (rot_keys_dict st2) (frame_of (armature_fps env) time))
               (size_at_frame env (scale_keys_dict st2) (frame_of (armature_fps env) time)) keyVal))) (translations_keys kfd) \<and>
        (\<forall>k \<in> set (keyframes st2). \<not> is_location k) \<and>
        (\<forall>p f q. Keyframe p f (RotationValue q) \<in> set (keyframes st2) \<longrightarrow> f \<in> dom (rot_keys_dict st2)) \<and>
        (\<forall>f q. rot_keys_dict st2 f = Some q \<longrightarrow> (\<exists>p. Keyframe p f (RotationValue q) \<in> set (keyframes st2))))) \<and>
   (\<forall>keys st st'. translation_keys_loop env b keys st = Inr st' \<longrightarrow>
        keyframes st' = keyframes st @
          map (\<lambda>(time, keyVal).
          Keyframe ''location'' (frame_of (armature_fps env) time)
            (LocationValue (location_formula b
               (rot_at_frame env (rot_keys_dict st) (frame_of (armature_fps env) time))
               (size_at_frame env (scale_keys_dict st) (frame_of (armature_fps env) time)) keyVal))) keys \<and>
        rot_keys_dict st' = rot_keys_dict st \<and> scale_keys_dict st' = scale_keys_dict st) \<and>
   (\<forall>d f q. d f = Some q \<longrightarrow> rot_at_frame env d f = quaternion_to_matrix env q) \<and>
   (\<forall>d f. d = Map.empty \<longrightarrow> rot_at_frame env d f = ((1, 0, 0), (0, 1, 0), (0, 0, 1))) \<and>
   (\<forall>d f. d \<noteq> Map.empty \<and> d f = None \<and>
          (\<forall>fc \<in> set (action_channels env).
              \<not> py_in ''rotation_quaternion'' (data_path fc) \<longrightarrow>
              \<not> py_in ''rotation_euler'' (data_path fc)) \<longrightarrow>
          rot_at_frame env d f = quaternion_to_matrix env
              (channel_value (action_channels env)
                 (\<lambda>fc. py_in ''rotation_quaternion'' (data_path fc) \<and> array_index fc = 0) f 1,
               channel_value (action_channels env)
                 (\<lambda>fc. py_in ''rotation_quaternion'' (data_path fc) \<and> array_index fc = 1) f 0,
               channel_value (action_channels env)
                 (\<lambda>fc. py_in ''rotation_quaternion'' (data_path fc) \<and> array_index fc = 2) f 0,
               channel_value (action_channels env)
                 (\<lambda>fc. py_in ''rotation_quaternion'' (data_path fc) \<and> array_index fc = 3) f 0)) \<and>
   (\<forall>d f pre c post. d \<noteq> Map.empty \<and> d f = None \<and> action_channels env = pre @ c # post \<and>
          \<not> py_in ''rotation_quaternion'' (data_path c) \<and> py_in ''rotation_euler'' (data_path c) \<and>
          (\<forall>fc \<in> set post. \<not> py_in ''rotation_quaternion'' (data_path fc) \<longrightarrow>
              \<not> py_in ''rotation_euler'' (data_path fc)) \<longrightarrow>
          rot_at_frame env d f = quaternion_to_matrix env (euler_to_quaternion env
            (if array_index c = 0 then evaluate c f else 0,
             if array_index c = 1 then evaluate c f else 0,
             if array_index c = 2 then evaluate c f else 0))) \<and>
   (\<forall>d f s. d f = Some s \<longrightarrow> size_at_frame env d f = s) \<and>
   (\<forall>d f. d = Map.empty \<longrightarrow> size_at_frame env d f = 1) \<and>
   (\<forall>d f. d \<noteq> Map.empty \<and> d f = None \<longrightarrow>
          size_at_frame env d f =
            channel_value (named_action_channels env) (\<lambda>fc. data_path fc = ''scale'') f 1) \<and>
   (\<forall>cs P f dflt. (\<forall>fc \<in> set cs. \<not> P fc) \<longrightarrow> channel_value cs P f dflt = dflt) \<and>
   (\<forall>B r00 r01 r02 r10 r11 r12 r20 r21 r22 s tx ty tz.
        location_formula B ((r00, r01, r02), (r10, r11, r12), (r20, r21, r22)) s (tx, ty, tz) =
          (case (niBone_bind_rot_inv B, niBone_bind_trans B, extra_matrix_rot_inv B, extra_matrix_trans B) of
             (((b00, b01, b02), (b10, b11, b12), (b20, b21, b22)), (bx, by, bz),
              ((x00, x01, x02), (x10, x11, x12), (x20, x21, x22)), (ex, ey, ez)) \<Rightarrow>
               let lx = (b00 * (tx - bx) + b01 * (ty - by) + b02 * (tz - bz)) / niBone_bind_scale B;
                   ly = (b10 * (tx - bx) + b11 * (ty - by) + b12 * (tz - bz)) / niBone_bind_scale B;
                   lz = (b20 * (tx - bx) + b21 * (ty - by) + b22 * (tz - bz)) / niBone_bind_scale B;
                   ux = s * (r00 * ex + r01 * ey + r02 * ez) + lx - ex;
                   uy = s * (r10 * ex + r11 * ey + r12 * ez) + ly - ey;
                   uz = s * (r20 * ex + r21 * ey + r22 * ez) + lz - ez
               in ((x00 * ux + x01 * uy + x02 * uz) / extra_matrix_scale B,
                   (x10 * ux + x11 * uy + x12 * uz) / extra_matrix_scale B,
                   (x20 * ux + x21 * uy + x22 * uz) / extra_matrix_scale B)))"
proof -
  have i: "import_keyframe_data env b kfd = Inr kfs \<longrightarrow>
      (\<exists>st2. scales_keys kfd = [] \<and> rotation_phase env b kfd initial_state = Inr st2 \<and>
        scale_keys_dict st2 = Map.empty \<and>
        kfs = keyframes st2 @
          map (\<lambda>(time, keyVal).
          Keyframe ''location'' (frame_of (armature_fps env) time)
            (LocationValue (location_formula b
               (rot_at_frame env (rot_keys_dict st2) (frame_of (armature_fps env) time))
               (size_at_frame env (scale_keys_dict st2) (frame_of (armature_fps env) time)) keyVal))) (translations_keys kfd) \<and>
        (\<forall>k \<in> set (keyframes st2). \<not> is_location k) \<and>
        (\<forall>p f q. Keyframe p f (RotationValue q) \<in> set (keyframes st2) \<longrightarrow> f \<in> dom (rot_keys_dict st2)) \<and>
        (\<forall>f q. rot_keys_dict st2 f = Some q \<longrightarrow> (\<exists>p. Keyframe p f (RotationValue q) \<in> set (keyframes st2))))"
  proof
    assume "import_keyframe_data env b kfd = Inr kfs"
    then obtain st1 st2 st3 where p1: "scale_phase env b kfd = Inr st1"
      and p2: "rotation_phase env b kfd st1 = Inr st2"
      and p3: "translation_phase env b kfd st2 = Inr st3"
      and k: "kfs = keyframes st3"
      by (auto simp: import_keyframe_data_def bind_result_def split: sum.splits)
    from scale_phase_success [OF p1] have e: "scales_keys kfd = []" and s1: "st1 = initial_state"
      by simp_all
    note r = rotation_phase_recorded [OF samples_recorded_initial p2 [unfolded s1]]
    from r have sd: "scale_keys_dict st2 = Map.empty"
      by (simp add: initial_state_def)
    from r have rec: "samples_recorded st2" by simp
    have kf: "kfs = keyframes st2 @
          map (\<lambda>(time, keyVal).
          Keyframe ''location'' (frame_of (armature_fps env) time)
            (LocationValue (location_formula b
               (rot_at_frame env (rot_keys_dict st2) (frame_of (armature_fps env) time))
               (size_at_frame env (scale_keys_dict st2) (frame_of (armature_fps env) time)) keyVal))) (translations_keys kfd)"
      using p3 unfolding translation_phase_def k
      by (auto split: if_splits dest: translation_loop_keyframes)
    have a: "\<forall>k \<in> set (keyframes st2). \<not> is_location k"
      and c: "\<forall>p f q. Keyframe p f (RotationValue q) \<in> set (keyframes st2) \<longrightarrow> f \<in> dom (rot_keys_dict st2)"
      and d: "\<forall>f q. rot_keys_dict st2 f = Some q \<longrightarrow> (\<exists>p. Keyframe p f (RotationValue q) \<in> set (keyframes st2))"
      using rec unfolding samples_recorded_def by blast+
    from e p2 [unfolded s1] sd kf a c d
    show "(\<exists>st2. scales_keys kfd = [] \<and> rotation_phase env b kfd initial_state = Inr st2 \<and>
        scale_keys_dict st2 = Map.empty \<and>
        kfs = keyframes st2 @
          map (\<lambda>(time, keyVal).
          Keyframe ''location'' (frame_of (armature_fps env) time)
            (LocationValue (location_formula b
               (rot_at_frame env (rot_keys_dict st2) (frame_of (armature_fps env) time))
               (size_at_frame env (scale_keys_dict st2) (frame_of (armature_fps env) time)) keyVal))) (translations_keys kfd) \<and>
        (\<forall>k \<in> set (keyframes st2). \<not> is_location k) \<and>
        (\<forall>p f q. Keyframe p f (RotationValue q) \<in> set (keyframes st2) \<longrightarrow> f \<in> dom (rot_keys_dict st2)) \<and>
        (\<forall>f q. rot_keys_dict st2 f = Some q \<longrightarrow> (\<exists>p. Keyframe p f (RotationValue q) \<in> set (keyframes st2))))"
      by (intro exI [of _ st2] conjI)
  qed
  have ii: "translation_keys_loop env b keys st = Inr st' \<longrightarrow>
        keyframes st' = keyframes st @
          map (\<lambda>(time, keyVal).
          Keyframe ''location'' (frame_of (armature_fps env) time)
            (LocationValue (location_formula b
               (rot_at_frame env (rot_keys_dict st) (frame_of (armature_fps env) time))
               (size_at_frame env (scale_keys_dict st) (frame_of (armature_fps env) time)) keyVal))) keys \<and>
        rot_keys_dict st' = rot_keys_dict st \<and> scale_keys_dict st' = scale_keys_dict st" for keys st st'
    using translation_loop_keyframes [of env b keys st st'] translation_loop_dicts [of env b keys st st']
    by (intro impI conjI) simp_all
  have r1: "d f = Some q \<longrightarrow> rot_at_frame env d f = quaternion_to_matrix env q" for d f q
    by (auto simp: rot_at_frame_def)
  have r2: "d = Map.empty \<longrightarrow> rot_at_frame env d f = ((1, 0, 0), (0, 1, 0), (0, 0, 1))" for d f
    by (simp add: rot_at_frame_def IDENTITY33_def)
  have r3: "d \<noteq> Map.empty \<and> d f = None \<and>
          (\<forall>fc \<in> set (action_channels env).
              \<not> py_in ''rotation_quaternion'' (data_path fc) \<longrightarrow>
              \<not> py_in ''rotation_euler'' (data_path fc)) \<longrightarrow>
          rot_at_frame env d f = quaternion_to_matrix env
              (channel_value (action_channels env)
                 (\<lambda>fc. py_in ''rotation_quaternion'' (data_path fc) \<and> array_index fc = 0) f 1,
               channel_value (action_channels env)
                 (\<lambda>fc. py_in ''rotation_quaternion'' (data_path fc) \<and> array_index fc = 1) f 0,
               channel_value (action_channels env)
                 (\<lambda>fc. py_in ''rotation_quaternion'' (data_path fc) \<and> array_index fc = 2) f 0,
               channel_value (action_channels env)
                 (\<lambda>fc. py_in ''rotation_quaternion'' (data_path fc) \<and> array_index fc = 3) f 0)" for d f
    by (simp add: rot_at_frame_def slow_rotation_quaternion)
  have r4: "d \<noteq> Map.empty \<and> d f = None \<and> action_channels env = pre @ c # post \<and>
          \<not> py_in ''rotation_quaternion'' (data_path c) \<and> py_in ''rotation_euler'' (data_path c) \<and>
          (\<forall>fc \<in> set post. \<not> py_in ''rotation_quaternion'' (data_path fc) \<longrightarrow>
              \<not> py_in ''rotation_euler'' (data_path fc)) \<longrightarrow>
          rot_at_frame env d f = quaternion_to_matrix env (euler_to_quaternion env
            (if array_index c = 0 then evaluate c f else 0,
             if array_index c = 1 then evaluate c f else 0,
             if array_index c = 2 then evaluate c f else 0))" for d f pre c post
  proof
    assume h: "d \<noteq> Map.empty \<and> d f = None \<and> action_channels env = pre @ c # post \<and>
          \<not> py_in ''rotation_quaternion'' (data_path c) \<and> py_in ''rotation_euler'' (data_path c) \<and>
          (\<forall>fc \<in> set post. \<not> py_in ''rotation_quaternion'' (data_path fc) \<longrightarrow>
              \<not> py_in ''rotation_euler'' (data_path fc))"
    then have "slow_rotation env f = quaternion_to_matrix env (euler_to_quaternion env
            (if array_index c = 0 then evaluate c f else 0,
             if array_index c = 1 then evaluate c f else 0,
             if array_index c = 2 then evaluate c f else 0))"
      by (intro slow_rotation_euler [of env pre c post f]) simp_all
    with h show "rot_at_frame env d f = quaternion_to_matrix env (euler_to_quaternion env
            (if array_index c = 0 then evaluate c f else 0,
             if array_index c = 1 then evaluate c f else 0,
             if array_index c = 2 then evaluate c f else 0))"
      by (simp add: rot_at_frame_def)
  qed
  have s1: "d f = Some s \<longrightarrow> size_at_frame env d f = s" for d f s
    by (auto simp: size_at_frame_def)
  have s2: "d = Map.empty \<longrightarrow> size_at_frame env d f = 1" for d f
    by (simp add: size_at_frame_def)
  have s3: "d \<noteq> Map.empty \<and> d f = None \<longrightarrow>
          size_at_frame env d f =
            channel_value (named_action_channels env) (\<lambda>fc. data_path fc = ''scale'') f 1" for d f
    by (simp add: size_at_frame_def fold_channel_value)
  have cv: "(\<forall>fc \<in> set cs. \<not> P fc) \<longrightarrow> channel_value cs P f dflt = dflt" for cs P f dflt
    by (simp add: channel_value_def filter_empty_conv [THEN iffD2])
  have pin: "location_formula B ((r00, r01, r02), (r10, r11, r12), (r20, r21, r22)) s (tx, ty, tz) =
          (case (niBone_bind_rot_inv B, niBone_bind_trans B, extra_matrix_rot_inv B, extra_matrix_trans B) of
             (((b00, b01, b02), (b10, b11, b12), (b20, b21, b22)), (bx, by, bz),
              ((x00, x01, x02), (x10, x11, x12), (x20, x21, x22)), (ex, ey, ez)) \<Rightarrow>
               let lx = (b00 * (tx - bx) + b01 * (ty - by) + b02 * (tz - bz)) / niBone_bind_scale B;
                   ly = (b10 * (tx - bx) + b11 * (ty - by) + b12 * (tz - bz)) / niBone_bind_scale B;
                   lz = (b20 * (tx - bx) + b21 * (ty - by) + b22 * (tz - bz)) / niBone_bind_scale B;
                   ux = s * (r00 * ex + r01 * ey + r02 * ez) + lx - ex;
                   uy = s * (r10 * ex + r11 * ey + r12 * ez) + ly - ey;
                   uz = s * (r20 * ex + r21 * ey + r22 * ez) + lz - ez
               in ((x00 * ux + x01 * uy + x02 * uz) / extra_matrix_scale B,
                   (x10 * ux + x11 * uy + x12 * uz) / extra_matrix_scale B,
                   (x20 * ux + x21 * uy + x22 * uz) / extra_matrix_scale B))"
    for B r00 r01 r02 r10 r11 r12 r20 r21 r22 s tx ty tz
    by (rule location_formula_components)
  show ?thesis
    by (intro conjI allI) (rule i, rule ii, rule r1, rule r2, rule r3, rule r4, rule s1, rule s2,
        rule s3, rule cv, rule pin)
qed


theorem translation_after_rotation_and_scale_witness:
  "import_keyframe_data (example_env\<lparr>action_channels := example_channels\<rparr>)
     \<lparr>niBone_bind_scale = 2, niBone_bind_rot_inv = IDENTITY33,
      niBone_bind_quat_inv = (1, 0, 0, 0), niBone_bind_trans = (1, 1, 1),
      extra_matrix_scale = 1, extra_matrix_rot_inv = IDENTITY33,
      extra_matrix_quat = (1, 0, 0, 0), extra_matrix_quat_inv = (1, 0, 0, 0),
      extra_matrix_trans = (1, 1, 0)\<rparr>
     \<lparr>scales_keys = [], rotation_type = 1, xyz_rotations = ([], [], []),
      quaternion_keys = [(0, (0, 1, 0, 0))],
      translations_keys = [(0, (3, 5, 7)), (1, (3, 5, 7))]\<rparr> =
   Inr [Keyframe ''rotation_quaternion'' 1 (RotationValue (0, 1, 0, 0)),
        Keyframe ''location'' 1 (LocationValue (1, 0, 3)),
        Keyframe ''location'' 31 (LocationValue (- 1, 0, 3))] \<and>
   (\<exists>st2::anim_state. rot_keys_dict st2 1 = Some (0, 1, 0, 0) \<and> rot_keys_dict st2 31 = None \<and>
      keyframes st2 = [Keyframe ''rotation_quaternion'' 1 (RotationValue (0, 1, 0, 0))])"
proof -
  let ?env = "example_env\<lparr>action_channels := example_channels\<rparr>"
  let ?b = "\<lparr>niBone_bind_scale = 2, niBone_bind_rot_inv = IDENTITY33,
      niBone_bind_quat_inv = (1, 0, 0, 0), niBone_bind_trans = (1, 1, 1),
      extra_matrix_scale = 1, extra_matrix_rot_inv = IDENTITY33,
      extra_matrix_quat = (1, 0, 0, 0), extra_matrix_quat_inv = (1, 0, 0, 0),
      extra_matrix_trans = (1, 1, 0)\<rparr>"
  let ?kfd = "\<lparr>scales_keys = [], rotation_type = 1, xyz_rotations = ([], [], []),
      quaternion_keys = [(0, (0, 1, 0, 0))],
      translations_keys = [(0, (3, 5, 7)), (1, (3, 5, 7))]\<rparr>"
  let ?k = "Keyframe ''rotation_quaternion'' 1 (RotationValue (0, 1, 0, 0))"
  let ?l1 = "Keyframe ''location'' 1 (LocationValue (1, 0, 3))"
  let ?l2 = "Keyframe ''location'' 31 (LocationValue (- 1, 0, 3))"
  let ?S2 = "\<lparr>keyframes = [?k], scale_keys_dict = Map.empty, rot_keys_dict = [1 \<mapsto> (0, 1, 0, 0)]\<rparr>"
  have f0: "frame_of 30 0 = 1" and f1: "frame_of 30 1 = 31"
    by (simp_all add: frame_of_def py_int_def)
  have af: "armature_fps ?env = 30" "quaternion_to_matrix ?env = quat_to_mat3"
    "action_channels ?env = example_channels"
    by (simp_all add: example_env_def)
  have p1: "scale_phase ?env ?b ?kfd = Inr initial_state"
    by (simp add: scale_phase_def)
  have q: "quaternion_rotation ?b (0, 1, 0, 0) = (0, 1, 0, 0)"
    by (simp add: quaternion_rotation_def cross_def)
  have p2: "rotation_phase ?env ?b ?kfd initial_state = Inr ?S2"
    by (simp add: rotation_phase_def q Let_def af f0 initial_state_def)
  have r1: "rot_at_frame ?env [1 \<mapsto> (0, 1, 0, 0)] 1 = quat_to_mat3 (0, 1, 0, 0)"
    by (simp add: rot_at_frame_def af)
  have sl: "slow_rotation ?env 31 = quat_to_mat3 (0, 0, 0, 1)"
    by (simp add: slow_rotation_def af example_channels_def slow_rotation_step_def
        set_quat_component_def) (simp add: example_env_def)
  have r2: "rot_at_frame ?env [1 \<mapsto> (0, 1, 0, 0)] 31 = quat_to_mat3 (0, 0, 0, 1)"
    by (simp add: rot_at_frame_def sl)
  have z: "size_at_frame ?env Map.empty f = 1" for f
    by (simp add: size_at_frame_def)
  have l1: "location_formula ?b (quat_to_mat3 (0, 1, 0, 0)) 1 (3, 5, 7) = (1, 0, 3)"
    by (simp add: location_formula_def IDENTITY33_def quat_to_mat3_def
        mat_vec_def mat_scale_def mat_mul_def vec_add_def vec_sub_def dot_def)
  have l2: "location_formula ?b (quat_to_mat3 (0, 0, 0, 1)) 1 (3, 5, 7) = (- 1, 0, 3)"
    by (simp add: location_formula_def IDENTITY33_def quat_to_mat3_def
        mat_vec_def mat_scale_def mat_mul_def vec_add_def vec_sub_def dot_def)
  have tk1: "translation_key ?env ?b st 1 (3, 5, 7) = Inr (1, 0, 3)"
    if "rot_keys_dict st = [1 \<mapsto> (0, 1, 0, 0)]" "scale_keys_dict st = Map.empty" for st
    by (simp add: translation_key_def that r1 z l1 Let_def)
  have tk2: "translation_key ?env ?b st 31 (3, 5, 7) = Inr (- 1, 0, 3)"
    if "rot_keys_dict st = [1 \<mapsto> (0, 1, 0, 0)]" "scale_keys_dict st = Map.empty" for st
    by (simp add: translation_key_def that r2 z l2 Let_def)
  have p3: "translation_phase ?env ?b ?kfd ?S2 =
      Inr \<lparr>keyframes = [?k, ?l1, ?l2], scale_keys_dict = Map.empty,
           rot_keys_dict = [1 \<mapsto> (0, 1, 0, 0)]\<rparr>"
    by (simp add: translation_phase_def Let_def af f0 f1 tk1 tk2)
  have e: "import_keyframe_data ?env ?b ?kfd = Inr [?k, ?l1, ?l2]"
    by (simp add: import_keyframe_data_def bind_result_def p1 p2 p3)
  note t = translation_after_rotation_and_scale [of ?env ?b ?kfd "[?k, ?l1, ?l2]"]
  from mp [OF conjunct1 [OF t] e] obtain st2 where
    s2: "rotation_phase ?env ?b ?kfd initial_state = Inr st2"
    by blast
  with p2 have "st2 = ?S2" by simp
  then have "rot_keys_dict st2 1 = Some (0, 1, 0, 0) \<and> rot_keys_dict st2 31 = None \<and>
      keyframes st2 = [?k]"
    by simp
  then have "\<exists>st2::anim_state. rot_keys_dict st2 1 = Some (0, 1, 0, 0) \<and> rot_keys_dict st2 31 = None \<and>
      keyframes st2 = [?k]"
    by (rule exI [of _ st2])
  with e show ?thesis by (rule conjI)
qed

text \<open>
  C1. With the inverse bind quaternion \<open>(3/5, 0, 4/5, 0)\<close> (a rotation about Y), the
  identity extra rotation and the key rotation \<open>(3/5, 4/5, 0, 0)\<close> (a rotation about X),
  the quaternion branch and the B-spline branch, which compute the same function on
  every input, give the conjugated delta of the specification, the product of the
  inverse bind rotation with the key rotation. The
  formula of the Euler branch multiplies in the other order and gives a quaternion with
  another rotation matrix. The Euler loop does not even reach its formula: it fails on
  \<^verbatim>\<open>self.properties\<close> at its first key, and on \<^verbatim>\<open>mathutils.Euler(x, y, z)\<close> if the
  object has that attribute.
\<close>

theorem rotation_branches_differ:
  "(\<forall>b q. quaternion_rotation b q = bspline_rotation b q) \<and>
   quaternion_rotation (identity_bind\<lparr>niBone_bind_quat_inv := (3/5, 0, 4/5, 0)\<rparr>) (3/5, 4/5, 0, 0) =
     (9/25, 12/25, 12/25, - (16/25)) \<and>
   bspline_rotation (identity_bind\<lparr>niBone_bind_quat_inv := (3/5, 0, 4/5, 0)\<rparr>) (3/5, 4/5, 0, 0) =
     (9/25, 12/25, 12/25, - (16/25)) \<and>
   euler_rotation (identity_bind\<lparr>niBone_bind_quat_inv := (3/5, 0, 4/5, 0)\<rparr>) (3/5, 4/5, 0, 0) =
     (9/25, 12/25, 12/25, 16/25) \<and>
   quat_to_mat3 (9/25, 12/25, 12/25, 16/25) \<noteq> quat_to_mat3 (9/25, 12/25, 12/25, - (16/25)) \<and>
   euler_keys_loop example_env (identity_bind\<lparr>niBone_bind_quat_inv := (3/5, 0, 4/5, 0)\<rparr>)
     [((0, 1), (0, 0), (0, 0))] initial_state = Inl AttributeError \<and>
   euler_keys_loop (example_env\<lparr>properties_epsilon := Some (1/10000)\<rparr>)
     (identity_bind\<lparr>niBone_bind_quat_inv := (3/5, 0, 4/5, 0)\<rparr>)
     [((0, 1), (0, 0), (0, 0))] initial_state = Inl TypeError \<and>
   map_sum id keyframes (quaternion_keys_loop example_env
     (identity_bind\<lparr>niBone_bind_quat_inv := (3/5, 0, 4/5, 0)\<rparr>)
     [(0, (3/5, 4/5, 0, 0))] initial_state) =
     Inr [Keyframe ''rotation_quaternion'' 1 (RotationValue (9/25, 12/25, 12/25, - (16/25)))] \<and>
   keyframes (bspline_rotations_loop example_env
     (identity_bind\<lparr>niBone_bind_quat_inv := (3/5, 0, 4/5, 0)\<rparr>) True
     [(0, (3/5, 4/5, 0, 0))] initial_state) =
     [Keyframe ''rotation_quaternion'' 1 (RotationValue (9/25, 12/25, 12/25, - (16/25)))]"
proof -
  let ?b = "identity_bind\<lparr>niBone_bind_quat_inv := (3/5, 0, 4/5, 0)\<rparr>"
  have f: "frame_of 30 0 = 1" by (simp add: frame_of_def py_int_def)
  have q: "quaternion_rotation ?b (3/5, 4/5, 0, 0) = (9/25, 12/25, 12/25, - (16/25))"
    by (simp add: quaternion_rotation_def identity_bind_def cross_def)
  have s: "bspline_rotation ?b (3/5, 4/5, 0, 0) = (9/25, 12/25, 12/25, - (16/25))"
    by (simp add: bspline_rotation_def identity_bind_def cross_def)
  have e: "euler_rotation ?b (3/5, 4/5, 0, 0) = (9/25, 12/25, 12/25, 16/25)"
    by (simp add: euler_rotation_def identity_bind_def cross_def)
  have m: "quat_to_mat3 (9/25, 12/25, 12/25, 16/25) \<noteq> quat_to_mat3 (9/25, 12/25, 12/25, - (16/25))"
    by (simp add: quat_to_mat3_def)
  have a: "euler_keys_loop example_env ?b [((0, 1), (0, 0), (0, 0))] initial_state = Inl AttributeError"
    by (simp add: example_env_def)
  have b: "euler_keys_loop (example_env\<lparr>properties_epsilon := Some (1/10000)\<rparr>) ?b
      [((0, 1), (0, 0), (0, 0))] initial_state = Inl TypeError"
    by (simp add: example_env_def mathutils_Euler3_def Let_def)
  have c: "map_sum id keyframes (quaternion_keys_loop example_env ?b [(0, (3/5, 4/5, 0, 0))] initial_state) =
      Inr [Keyframe ''rotation_quaternion'' 1 (RotationValue (9/25, 12/25, 12/25, - (16/25)))]"
    by (simp add: q Let_def) (simp add: example_env_def f initial_state_def)
  have d: "keyframes (bspline_rotations_loop example_env ?b True [(0, (3/5, 4/5, 0, 0))] initial_state) =
      [Keyframe ''rotation_quaternion'' 1 (RotationValue (9/25, 12/25, 12/25, - (16/25)))]"
    by (simp add: s Let_def) (simp add: example_env_def f initial_state_def)
  have g: "\<forall>b q. quaternion_rotation b q = bspline_rotation b q"
    by (simp add: quaternion_rotation_def bspline_rotation_def)
  from g q s e m a b c d show ?thesis by (intro conjI)
qed

end
